theory Spec2Isabelle
  imports Complex_Main "HOL-Library.Sublist" "HOL-Library.Log_Nat"
begin

section \<open>The Lorenz integrators of scene4.py, scene5.py and scene6.py\<close>

text \<open>
  The three scripts each carry a method \<^verbatim>\<open>get_lorenz_points(self, xyz, *, sigma, rho, beta,
  dt, num_points)\<close>. The body is a \<^verbatim>\<open>for _ in range(num_points)\<close> loop over three local
  numbers \<^verbatim>\<open>x, y, z\<close> and one (scene4, scene5) or two (scene6) output lists.

  The numbers are Python floats. The integrators are embedded over an arbitrary type
  \<open>'a\<close> that only has to offer \<open>+\<close>, \<open>-\<close> and \<open>*\<close>: no law of arithmetic is assumed, and
  every operation is written in the order and with the bracketing of the source. What is
  proved for all such \<open>'a\<close> therefore does not depend on the rounding of the machine's
  arithmetic. Claims that need concrete numbers are stated at type \<open>real\<close>, or at the
  type \<open>double\<close> of the machine's arithmetic where the rounding matters.

  \<^verbatim>\<open>range(num_points)\<close> is empty for a negative \<^verbatim>\<open>num_points\<close>, so the loop runs
  \<open>nat num_points\<close> times.
\<close>

type_synonym 'a point = "'a \<times> 'a \<times> 'a"

datatype py_error = UnboundLocalError | ValueError | TypeError

subsection \<open>scene4.py: \<^verbatim>\<open>LorenzSystem.get_lorenz_points\<close>\<close>

text \<open>
  \<^verbatim>\<open>
    points = []
    x, y, z = xyz
    for _ in range(num_points):
        dx = sigma * (y - x)
        dy = x * (rho - z) - y
        dz = x * y - beta * z
        x += dx * dt
        y += dy * dt
        z += dz * dt
        points.append([x, y, z])
    return points
  \<close>
  The loop is a recursion on the number of iterations left; the loop variables
  \<^verbatim>\<open>x, y, z\<close> and \<^verbatim>\<open>points\<close> are its arguments.
\<close>

fun LorenzSystem_loop ::
  "'a::{plus,minus,times} \<Rightarrow> 'a \<Rightarrow> 'a \<Rightarrow> 'a \<Rightarrow> nat \<Rightarrow> 'a point \<Rightarrow> 'a point list \<Rightarrow> 'a point list"
where
  "LorenzSystem_loop sigma rho beta dt 0 xyz points = points"
| "LorenzSystem_loop sigma rho beta dt (Suc n) (x, y, z) points =
     (let dx = sigma * (y - x);
          dy = x * (rho - z) - y;
          dz = x * y - beta * z;
          x' = x + dx * dt;
          y' = y + dy * dt;
          z' = z + dz * dt
      in LorenzSystem_loop sigma rho beta dt n (x', y', z') (points @ [(x', y', z')]))"

definition LorenzSystem_get_lorenz_points ::
  "'a::{plus,minus,times} point \<Rightarrow> 'a \<Rightarrow> 'a \<Rightarrow> 'a \<Rightarrow> 'a \<Rightarrow> int \<Rightarrow> 'a point list"
where
  "LorenzSystem_get_lorenz_points xyz sigma rho beta dt num_points =
     LorenzSystem_loop sigma rho beta dt (nat num_points) xyz []"

subsection \<open>scene5.py: \<^verbatim>\<open>ComprehensiveChaosSystem.get_lorenz_points\<close>\<close>

text \<open>
  The same loop, and \<^verbatim>\<open>return points, [dx, dy, dz]\<close> after it. The names
  \<^verbatim>\<open>dx, dy, dz\<close> are bound in the loop body only: when the loop does not run, reading them
  raises \<^verbatim>\<open>UnboundLocalError\<close>. The binding is the \<open>option\<close> argument of the loop.
\<close>

fun ComprehensiveChaosSystem_loop ::
  "'a::{plus,minus,times} \<Rightarrow> 'a \<Rightarrow> 'a \<Rightarrow> 'a \<Rightarrow> nat \<Rightarrow> 'a point \<Rightarrow> 'a point option \<Rightarrow>
     'a point list \<Rightarrow> 'a point list \<times> 'a point option"
where
  "ComprehensiveChaosSystem_loop sigma rho beta dt 0 xyz d points = (points, d)"
| "ComprehensiveChaosSystem_loop sigma rho beta dt (Suc n) (x, y, z) d points =
     (let dx = sigma * (y - x);
          dy = x * (rho - z) - y;
          dz = x * y - beta * z;
          x' = x + dx * dt;
          y' = y + dy * dt;
          z' = z + dz * dt
      in ComprehensiveChaosSystem_loop sigma rho beta dt n (x', y', z') (Some (dx, dy, dz))
           (points @ [(x', y', z')]))"

definition ComprehensiveChaosSystem_get_lorenz_points ::
  "'a::{plus,minus,times} point \<Rightarrow> 'a \<Rightarrow> 'a \<Rightarrow> 'a \<Rightarrow> 'a \<Rightarrow> int \<Rightarrow>
     py_error + ('a point list \<times> 'a point)"
where
  "ComprehensiveChaosSystem_get_lorenz_points xyz sigma rho beta dt num_points =
     (case ComprehensiveChaosSystem_loop sigma rho beta dt (nat num_points) xyz None [] of
        (points, None) \<Rightarrow> Inl UnboundLocalError
      | (points, Some d) \<Rightarrow> Inr (points, d))"

subsection \<open>scene6.py: \<^verbatim>\<open>AdvancedChaosSystem.get_lorenz_points\<close>\<close>

text \<open>
  \<^verbatim>\<open>
    points = []
    derivatives = []
    x, y, z = xyz
    for _ in range(num_points):
        dx = sigma * (y - x)
        dy = x * (rho - z) - y
        dz = x * y - beta * z
        derivatives.append([dx, dy, dz])
        x += dx * dt
        y += dy * dt
        z += dz * dt
        points.append([x, y, z])
    return points, derivatives
  \<close>
\<close>

fun AdvancedChaosSystem_loop ::
  "'a::{plus,minus,times} \<Rightarrow> 'a \<Rightarrow> 'a \<Rightarrow> 'a \<Rightarrow> nat \<Rightarrow> 'a point \<Rightarrow>
     'a point list \<Rightarrow> 'a point list \<Rightarrow> 'a point list \<times> 'a point list"
where
  "AdvancedChaosSystem_loop sigma rho beta dt 0 xyz points derivatives = (points, derivatives)"
| "AdvancedChaosSystem_loop sigma rho beta dt (Suc n) (x, y, z) points derivatives =
     (let dx = sigma * (y - x);
          dy = x * (rho - z) - y;
          dz = x * y - beta * z;
          derivatives' = derivatives @ [(dx, dy, dz)];
          x' = x + dx * dt;
          y' = y + dy * dt;
          z' = z + dz * dt
      in AdvancedChaosSystem_loop sigma rho beta dt n (x', y', z') (points @ [(x', y', z')])
           derivatives')"

definition AdvancedChaosSystem_get_lorenz_points ::
  "'a::{plus,minus,times} point \<Rightarrow> 'a \<Rightarrow> 'a \<Rightarrow> 'a \<Rightarrow> 'a \<Rightarrow> int \<Rightarrow>
     'a point list \<times> 'a point list"
where
  "AdvancedChaosSystem_get_lorenz_points xyz sigma rho beta dt num_points =
     AdvancedChaosSystem_loop sigma rho beta dt (nat num_points) xyz [] []"

subsection \<open>The specification's explicit Euler step\<close>

text \<open>
  The step as the specification writes it: \<open>(x, y, z)\<close> goes to
  \<open>(x + sigma*(y-x)*dt, y + (x*(rho-z)-y)*dt, z + (x*y - beta*z)*dt)\<close>. The derivative
  triple of the Lorenz equations at a state is \<open>lorenz_derivative\<close>.
\<close>

definition explicit_euler_step ::
  "'a::{plus,minus,times} \<Rightarrow> 'a \<Rightarrow> 'a \<Rightarrow> 'a \<Rightarrow> 'a point \<Rightarrow> 'a point"
where
  "explicit_euler_step sigma rho beta dt p =
     (case p of (x, y, z) \<Rightarrow>
        (x + sigma * (y - x) * dt, y + (x * (rho - z) - y) * dt, z + (x * y - beta * z) * dt))"

definition lorenz_derivative :: "'a::{plus,minus,times} \<Rightarrow> 'a \<Rightarrow> 'a \<Rightarrow> 'a point \<Rightarrow> 'a point"
where
  "lorenz_derivative sigma rho beta p =
     (case p of (x, y, z) \<Rightarrow> (sigma * (y - x), x * (rho - z) - y, x * y - beta * z))"

text \<open>\<open>iterates f n s\<close> lists \<open>f s, f (f s), \<dots>\<close>, \<open>n\<close> states in all, without \<open>s\<close> itself.\<close>

fun iterates :: "('s \<Rightarrow> 's) \<Rightarrow> nat \<Rightarrow> 's \<Rightarrow> 's list" where
  "iterates f 0 s = []"
| "iterates f (Suc n) s = f s # iterates f n (f s)"

subsection \<open>Returned values as Python objects\<close>

text \<open>
  scene4.py returns a list of three-element lists; scene5.py returns the pair of that list
  and the three-element list \<^verbatim>\<open>[dx, dy, dz]\<close>; scene6.py returns the pair of that list and
  the list \<^verbatim>\<open>derivatives\<close> of three-element lists. \<open>py_point\<close> and \<open>py_points\<close> give the
  Python object that a triple and a list of triples of the embedding stand for, so that a
  list of numbers and a list of lists can be compared.
\<close>

datatype 'a py_value = PyNum 'a | PyList "'a py_value list"

definition py_point :: "'a point \<Rightarrow> 'a py_value" where
  "py_point p = (case p of (x, y, z) \<Rightarrow> PyList [PyNum x, PyNum y, PyNum z])"

definition py_points :: "'a point list \<Rightarrow> 'a py_value" where
  "py_points ps = PyList (map py_point ps)"

section \<open>The integrators on a store of list objects\<close>

text \<open>
  \<^verbatim>\<open>get_lorenz_points\<close> receives \<^verbatim>\<open>xyz\<close> by reference: the callers pass a Python list,
  which the method could mutate. To say what the method does to that object, the store
  is explicit here. A value is a number or a reference to a list object; the store holds
  the list objects allocated so far, under the addresses \<open>0, \<dots>, next_addr - 1\<close>.
  \<^verbatim>\<open>[]\<close> and \<^verbatim>\<open>[x, y, z]\<close> allocate a new list object, \<^verbatim>\<open>l.append(v)\<close> changes the
  object that \<^verbatim>\<open>l\<close> refers to, and \<^verbatim>\<open>x += dx * dt\<close> on a number binds the local name
  \<^verbatim>\<open>x\<close> to a new number.
\<close>

datatype 'a hval = HNum 'a | HRef nat

record 'a heap =
  objs :: "nat \<Rightarrow> 'a hval list"
  next_addr :: nat

definition alloc :: "'a hval list \<Rightarrow> 'a heap \<Rightarrow> nat \<times> 'a heap" where
  "alloc obj h = (next_addr h, h\<lparr>objs := (objs h)(next_addr h := obj), next_addr := Suc (next_addr h)\<rparr>)"

definition list_append :: "nat \<Rightarrow> 'a hval \<Rightarrow> 'a heap \<Rightarrow> 'a heap" where
  "list_append a v h = h\<lparr>objs := (objs h)(a := objs h a @ [v])\<rparr>"

text \<open>
  \<^verbatim>\<open>x, y, z = xyz\<close>: a number cannot be unpacked (\<^verbatim>\<open>TypeError\<close>), and a list of another
  length than three raises \<^verbatim>\<open>ValueError\<close>. The three names are bound to the elements,
  whatever they are.
\<close>

definition unpack3 :: "'a heap \<Rightarrow> 'a hval \<Rightarrow> py_error + ('a hval \<times> 'a hval \<times> 'a hval)" where
  "unpack3 h v =
     (case v of
        HNum n \<Rightarrow> Inl TypeError
      | HRef a \<Rightarrow> (case objs h a of [x, y, z] \<Rightarrow> Inr (x, y, z) | _ \<Rightarrow> Inl ValueError))"

text \<open>
  The arithmetic of the loop body is defined on numbers. When one of \<^verbatim>\<open>x, y, z\<close> is a
  list, the first of \<^verbatim>\<open>y - x\<close>, \<^verbatim>\<open>rho - z\<close> that meets it raises \<^verbatim>\<open>TypeError\<close>, before
  anything is appended.
\<close>

fun as_numbers :: "'a hval \<times> 'a hval \<times> 'a hval \<Rightarrow> 'a point option" where
  "as_numbers (HNum x, HNum y, HNum z) = Some (x, y, z)"
| "as_numbers _ = None"

definition point_obj :: "'a point \<Rightarrow> 'a hval list" where
  "point_obj p = (case p of (x, y, z) \<Rightarrow> [HNum x, HNum y, HNum z])"

fun LorenzSystem_loop_heap ::
  "'a::{plus,minus,times} \<Rightarrow> 'a \<Rightarrow> 'a \<Rightarrow> 'a \<Rightarrow> nat \<Rightarrow> nat \<Rightarrow> 'a hval \<times> 'a hval \<times> 'a hval \<Rightarrow>
     'a heap \<Rightarrow> py_error + 'a heap"
where
  "LorenzSystem_loop_heap sigma rho beta dt 0 points xyz h = Inr h"
| "LorenzSystem_loop_heap sigma rho beta dt (Suc n) points xyz h =
     (case as_numbers xyz of
        None \<Rightarrow> Inl TypeError
      | Some (x, y, z) \<Rightarrow>
          (let dx = sigma * (y - x);
               dy = x * (rho - z) - y;
               dz = x * y - beta * z;
               x' = x + dx * dt;
               y' = y + dy * dt;
               z' = z + dz * dt;
               (a, h1) = alloc [HNum x', HNum y', HNum z'] h;
               h2 = list_append points (HRef a) h1
           in LorenzSystem_loop_heap sigma rho beta dt n points (HNum x', HNum y', HNum z') h2))"

definition LorenzSystem_get_lorenz_points_heap ::
  "'a heap \<Rightarrow> 'a::{plus,minus,times} hval \<Rightarrow> 'a \<Rightarrow> 'a \<Rightarrow> 'a \<Rightarrow> 'a \<Rightarrow> int \<Rightarrow>
     py_error + ('a hval \<times> 'a heap)"
where
  "LorenzSystem_get_lorenz_points_heap h xyz sigma rho beta dt num_points =
     (let (points, h1) = alloc [] h
      in case unpack3 h1 xyz of
           Inl err \<Rightarrow> Inl err
         | Inr v \<Rightarrow>
             (case LorenzSystem_loop_heap sigma rho beta dt (nat num_points) points v h1 of
                Inl err \<Rightarrow> Inl err
              | Inr h2 \<Rightarrow> Inr (HRef points, h2)))"

fun AdvancedChaosSystem_loop_heap ::
  "'a::{plus,minus,times} \<Rightarrow> 'a \<Rightarrow> 'a \<Rightarrow> 'a \<Rightarrow> nat \<Rightarrow> nat \<Rightarrow> nat \<Rightarrow>
     'a hval \<times> 'a hval \<times> 'a hval \<Rightarrow> 'a heap \<Rightarrow> py_error + 'a heap"
where
  "AdvancedChaosSystem_loop_heap sigma rho beta dt 0 points derivatives xyz h = Inr h"
| "AdvancedChaosSystem_loop_heap sigma rho beta dt (Suc n) points derivatives xyz h =
     (case as_numbers xyz of
        None \<Rightarrow> Inl TypeError
      | Some (x, y, z) \<Rightarrow>
          (let dx = sigma * (y - x);
               dy = x * (rho - z) - y;
               dz = x * y - beta * z;
               (d, h1) = alloc [HNum dx, HNum dy, HNum dz] h;
               h2 = list_append derivatives (HRef d) h1;
               x' = x + dx * dt;
               y' = y + dy * dt;
               z' = z + dz * dt;
               (a, h3) = alloc [HNum x', HNum y', HNum z'] h2;
               h4 = list_append points (HRef a) h3
           in AdvancedChaosSystem_loop_heap sigma rho beta dt n points derivatives
                (HNum x', HNum y', HNum z') h4))"

definition AdvancedChaosSystem_get_lorenz_points_heap ::
  "'a heap \<Rightarrow> 'a::{plus,minus,times} hval \<Rightarrow> 'a \<Rightarrow> 'a \<Rightarrow> 'a \<Rightarrow> 'a \<Rightarrow> int \<Rightarrow>
     py_error + (('a hval \<times> 'a hval) \<times> 'a heap)"
where
  "AdvancedChaosSystem_get_lorenz_points_heap h xyz sigma rho beta dt num_points =
     (let (points, h1) = alloc [] h;
          (derivatives, h2) = alloc [] h1
      in case unpack3 h2 xyz of
           Inl err \<Rightarrow> Inl err
         | Inr v \<Rightarrow>
             (case AdvancedChaosSystem_loop_heap sigma rho beta dt (nat num_points) points
                     derivatives v h2 of
                Inl err \<Rightarrow> Inl err
              | Inr h3 \<Rightarrow> Inr ((HRef points, HRef derivatives), h3)))"

text \<open>
  What a caller sees of a returned list of lists: the elements of the returned list
  object, each read through its reference in the final store.
\<close>

definition read_list_of_lists :: "'a heap \<Rightarrow> 'a hval \<Rightarrow> 'a hval list list" where
  "read_list_of_lists h v =
     (case v of
        HNum n \<Rightarrow> []
      | HRef p \<Rightarrow> map (\<lambda>e. case e of HNum n \<Rightarrow> [] | HRef a \<Rightarrow> objs h a) (objs h p))"

definition returned_points :: "py_error + ('a hval \<times> 'a heap) \<Rightarrow> py_error + 'a hval list list" where
  "returned_points r =
     (case r of Inl err \<Rightarrow> Inl err | Inr (v, h) \<Rightarrow> Inr (read_list_of_lists h v))"

section \<open>The damped pendulum of scene7.py\<close>

text \<open>
  \<^verbatim>\<open>construct\<close> fixes \<^verbatim>\<open>L = 3.5\<close>, \<^verbatim>\<open>g = 9.81\<close>, \<^verbatim>\<open>theta_0 = PI/3\<close>,
  \<^verbatim>\<open>omega = np.sqrt(g/L)\<close> and \<^verbatim>\<open>damping = 0.1\<close>, and the closure \<^verbatim>\<open>update_pendulum(dt)\<close>
  reads them. The closure's captured constants are the record \<open>env\<close>; the numbers are
  reals, with \<open>exp\<close>, \<open>cos\<close> and \<open>sin\<close> for \<^verbatim>\<open>np.exp\<close>, \<^verbatim>\<open>np.cos\<close> and \<^verbatim>\<open>np.sin\<close>.
\<close>

record env =
  env_L :: real
  env_theta_0 :: real
  env_omega :: real
  env_damping :: real

definition construct_env :: env where
  "construct_env =
     \<lparr>env_L = 3.5, env_theta_0 = pi / 3, env_omega = sqrt (9.81 / 3.5), env_damping = 0.1\<rparr>"

text \<open>
  Lines 81 and 82 of scene7.py, the closed-form kinematics:
  \<^verbatim>\<open>
    theta = theta_0 * np.exp(-damping * t) * np.cos(omega * t)
    theta_dot = theta_0 * np.exp(-damping * t) * (-damping * np.cos(omega * t) - omega * np.sin(omega * t))
  \<close>
\<close>

definition theta :: "real \<Rightarrow> real \<Rightarrow> real \<Rightarrow> real \<Rightarrow> real" where
  "theta t theta_0 damping omega = theta_0 * exp (- damping * t) * cos (omega * t)"

definition theta_dot :: "real \<Rightarrow> real \<Rightarrow> real \<Rightarrow> real \<Rightarrow> real" where
  "theta_dot t theta_0 damping omega =
     theta_0 * exp (- damping * t) * (- damping * cos (omega * t) - omega * sin (omega * t))"

text \<open>
  The display objects that the updater writes. Of each object only what the updater sets
  is kept: the centre of a dot, the two ends of the rod, the height of a bar, the point
  array \<^verbatim>\<open>points\<close> of a path.
\<close>

record scene =
  time :: real
  bob :: "real point"
  bob_glow :: "real point"
  rod :: "real point \<times> real point"
  path_points :: "real point list"
  potential_bar :: real
  kinetic_bar :: real
  phase_point :: "real point"
  phase_trail_points :: "real point list"

text \<open>
  \<^verbatim>\<open>VMobject.add_points_as_corners\<close> belongs to the animation framework, not to the
  repository. For each corner it appends to the object's point array the control points
  of a straight segment from the array's last point to the corner. Which points those
  are is the parameter \<open>seg\<close> (given the array so far and the corner); nothing is assumed
  of it.
\<close>

definition add_points_as_corners ::
  "('p list \<Rightarrow> 'p \<Rightarrow> 'p list) \<Rightarrow> 'p list \<Rightarrow> 'p list \<Rightarrow> 'p list"
where
  "add_points_as_corners seg points corners = fold (\<lambda>c acc. acc @ seg acc c) corners points"

text \<open>The Python slice \<^verbatim>\<open>xs[-k:]\<close> for \<open>k > 0\<close>: the last \<open>k\<close> elements, or all of a shorter \<open>xs\<close>.\<close>

definition slice_last :: "nat \<Rightarrow> 'p list \<Rightarrow> 'p list" where
  "slice_last k xs = drop (length xs - k) xs"

text \<open>
  \<^verbatim>\<open>new_bob_pos = np.array([x, y, 0])\<close> with \<^verbatim>\<open>x = L * np.sin(theta)\<close> and
  \<^verbatim>\<open>y = -L * np.cos(theta)\<close>, and the centre \<^verbatim>\<open>np.array([phase_x + 5, phase_y, 0])\<close> of the
  phase-space dot with \<^verbatim>\<open>phase_x = theta * 2\<close> and \<^verbatim>\<open>phase_y = theta_dot\<close>, at elapsed
  time \<open>t\<close>.
\<close>

definition new_bob_pos :: "env \<Rightarrow> real \<Rightarrow> real point" where
  "new_bob_pos e t =
     (let theta = theta t (env_theta_0 e) (env_damping e) (env_omega e);
          x = env_L e * sin theta;
          y = - env_L e * cos theta
      in (x, y, 0))"

definition phase_point_pos :: "env \<Rightarrow> real \<Rightarrow> real point" where
  "phase_point_pos e t =
     (let theta = theta t (env_theta_0 e) (env_damping e) (env_omega e);
          theta_dot = theta_dot t (env_theta_0 e) (env_damping e) (env_omega e);
          phase_x = theta * 2;
          phase_y = theta_dot
      in (phase_x + 5, phase_y, 0))"

text \<open>
  \<^verbatim>\<open>update_pendulum(dt)\<close>, lines 76 to 110. \<^verbatim>\<open>self.time\<close> is the field \<open>time\<close>;
  \<^verbatim>\<open>move_to\<close> sets a centre and \<^verbatim>\<open>get_center\<close> reads it; the pivot stays at the origin;
  \<^verbatim>\<open>stretch_to_fit_height\<close> sets a height.
\<close>

definition update_pendulum ::
  "(real point list \<Rightarrow> real point \<Rightarrow> real point list) \<Rightarrow> env \<Rightarrow> real \<Rightarrow> scene \<Rightarrow> scene"
where
  "update_pendulum seg e dt s =
     (let t = time s + dt;
          theta = theta t (env_theta_0 e) (env_damping e) (env_omega e);
          theta_dot = theta_dot t (env_theta_0 e) (env_damping e) (env_omega e);
          bob_center = new_bob_pos e t;
          path1 = add_points_as_corners seg (path_points s) [bob_center];
          path2 = (if length path1 > 150 then slice_last 150 path1 else path1);
          PE = (1 - cos theta) * 2;
          KE = (theta_dot / env_omega e)\<^sup>2 * 2;
          phase_center = phase_point_pos e t;
          trail1 = add_points_as_corners seg (phase_trail_points s) [phase_center];
          trail2 = (if length trail1 > 150 then slice_last 150 trail1 else trail1)
      in \<lparr>time = t, bob = bob_center, bob_glow = bob_center, rod = ((0, 0, 0), bob_center),
          path_points = path2, potential_bar = PE, kinetic_bar = KE,
          phase_point = phase_center, phase_trail_points = trail2\<rparr>)"

text \<open>
  The rendering loop calls the updater once per frame, one call after the other:
  \<open>frames\<close> runs it over the frame durations \<open>dts\<close>. \<open>path_appended\<close> and
  \<open>trail_appended\<close> collect, in order, every point that those calls append to the
  trailing path and to the phase-space trail.
\<close>

definition frames ::
  "(real point list \<Rightarrow> real point \<Rightarrow> real point list) \<Rightarrow> env \<Rightarrow> real list \<Rightarrow> scene \<Rightarrow> scene"
where
  "frames seg e dts s = fold (update_pendulum seg e) dts s"

fun path_appended ::
  "(real point list \<Rightarrow> real point \<Rightarrow> real point list) \<Rightarrow> env \<Rightarrow> real list \<Rightarrow> scene \<Rightarrow>
     real point list"
where
  "path_appended seg e [] s = []"
| "path_appended seg e (dt # dts) s =
     seg (path_points s) (new_bob_pos e (time s + dt)) @
     path_appended seg e dts (update_pendulum seg e dt s)"

fun trail_appended ::
  "(real point list \<Rightarrow> real point \<Rightarrow> real point list) \<Rightarrow> env \<Rightarrow> real list \<Rightarrow> scene \<Rightarrow>
     real point list"
where
  "trail_appended seg e [] s = []"
| "trail_appended seg e (dt # dts) s =
     seg (phase_trail_points s) (phase_point_pos e (time s + dt)) @
     trail_appended seg e dts (update_pendulum seg e dt s)"

section \<open>Double-precision arithmetic\<close>

text \<open>
  Python's \<^verbatim>\<open>float\<close> is the IEEE 754 binary64 format, and \<^verbatim>\<open>+\<close>, \<^verbatim>\<open>-\<close>, \<^verbatim>\<open>*\<close> on it
  return the exact result rounded to the nearest representable number, a tie going to
  the even significand. \<open>Finite m e\<close> is the number \<open>m * 2\<^sup>e\<close>: a normal number has
  \<open>2\<^sup>5\<^sup>2 \<le> |m| < 2\<^sup>5\<^sup>3\<close> and \<open>-1074 \<le> e \<le> 971\<close>, a subnormal number and zero have
  \<open>|m| < 2\<^sup>5\<^sup>2\<close> and \<open>e = -1074\<close>. The two zeros of the format are one value here; they
  differ only under division and sign inspection, which the integrators do not use.
  \<open>NonFinite\<close> stands for the infinities and NaN together: under \<^verbatim>\<open>+\<close>, \<^verbatim>\<open>-\<close>, \<^verbatim>\<open>*\<close> a
  result is non-finite exactly when an operand is or when the rounded result exceeds the
  largest finite number.

  The script's integer arguments (\<^verbatim>\<open>sigma=10\<close>, \<^verbatim>\<open>rho=28\<close>, the components \<^verbatim>\<open>10\<close> of an
  initial state) are small integers: Python's integer arithmetic on them is exact, their
  conversion to \<^verbatim>\<open>float\<close> is exact, and every operation that mixes them with a
  \<^verbatim>\<open>float\<close> converts first. They are therefore the doubles of the same value.
\<close>

datatype double = Finite int int | NonFinite

text \<open>
  \<open>round_nearest_even a k\<close> is the integer nearest to \<open>a / 2\<^sup>k\<close>, the even one of the two
  at a tie.
\<close>

definition round_nearest_even :: "int \<Rightarrow> nat \<Rightarrow> int" where
  "round_nearest_even a k =
     (let q = a div 2 ^ k; r = a mod 2 ^ k
      in if 2 * r < 2 ^ k then q
         else if 2 ^ k < 2 * r then q + 1
         else if even q then q else q + 1)"

text \<open>
  \<open>round_magnitude a E\<close> rounds the positive number \<open>a * 2\<^sup>E\<close> to 53 significant bits (to
  fewer where the exponent would fall below \<open>-1074\<close>) and returns significand and
  exponent; \<open>bitlen a\<close> is the number of bits of \<open>a\<close>. A significand that rounds up to
  \<open>2\<^sup>5\<^sup>3\<close> is renormalised. \<open>round_double M E\<close> is the double nearest to \<open>M * 2\<^sup>E\<close>.
\<close>

definition round_magnitude :: "int \<Rightarrow> int \<Rightarrow> int \<times> int" where
  "round_magnitude a E =
     (let e = max (E + bitlen a - 53) (- 1074)
      in if e \<le> E then (a * 2 ^ nat (E - e), e)
         else (let q = round_nearest_even a (nat (e - E))
               in if q = 2 ^ 53 then (2 ^ 52, e + 1) else (q, e)))"

definition finite_or_overflow :: "int \<Rightarrow> int \<Rightarrow> double" where
  "finite_or_overflow m e = (if 971 < e then NonFinite else Finite m e)"

definition round_double :: "int \<Rightarrow> int \<Rightarrow> double" where
  "round_double M E =
     (if M = 0 then Finite 0 (- 1074)
      else case round_magnitude \<bar>M\<bar> E of (q, e) \<Rightarrow> finite_or_overflow (sgn M * q) e)"

instantiation double :: "{plus, minus, times}"
begin

fun plus_double :: "double \<Rightarrow> double \<Rightarrow> double" where
  "plus_double (Finite m1 e1) (Finite m2 e2) =
     (let e = min e1 e2
      in round_double (m1 * 2 ^ nat (e1 - e) + m2 * 2 ^ nat (e2 - e)) e)"
| "plus_double _ _ = NonFinite"

fun minus_double :: "double \<Rightarrow> double \<Rightarrow> double" where
  "minus_double (Finite m1 e1) (Finite m2 e2) =
     (let e = min e1 e2
      in round_double (m1 * 2 ^ nat (e1 - e) - m2 * 2 ^ nat (e2 - e)) e)"
| "minus_double _ _ = NonFinite"

fun times_double :: "double \<Rightarrow> double \<Rightarrow> double" where
  "times_double (Finite m1 e1) (Finite m2 e2) = round_double (m1 * m2) (e1 + e2)"
| "times_double _ _ = NonFinite"

instance ..

end

text \<open>The real number that a finite double is; \<open>NonFinite\<close> has none, and gets \<open>0\<close>.\<close>

definition real_of_double :: "double \<Rightarrow> real" where
  "real_of_double d =
     (case d of
        Finite m e \<Rightarrow> (if 0 \<le> e then of_int (m * 2 ^ nat e) else of_int m / 2 ^ nat (- e))
      | NonFinite \<Rightarrow> 0)"

text \<open>
  The doubles that Python makes of \<^verbatim>\<open>10\<close>, \<^verbatim>\<open>28\<close>, \<^verbatim>\<open>8/3\<close>, \<^verbatim>\<open>0.01\<close> and \<^verbatim>\<open>10.01\<close>: in
  hexadecimal \<^verbatim>\<open>0x1.4p+3\<close>, \<^verbatim>\<open>0x1.cp+4\<close>, \<^verbatim>\<open>0x1.5555555555555p+1\<close>,
  \<^verbatim>\<open>0x1.47ae147ae147bp-7\<close> and \<^verbatim>\<open>0x1.4051eb851eb85p+3\<close>. The first four are the default
  \<^verbatim>\<open>sigma\<close>, \<^verbatim>\<open>rho\<close>, \<^verbatim>\<open>beta\<close> and \<^verbatim>\<open>dt\<close> of \<^verbatim>\<open>get_lorenz_points\<close>.
\<close>

definition py_10 :: double where "py_10 = Finite 5629499534213120 (- 49)"

definition py_28 :: double where "py_28 = Finite 7881299347898368 (- 48)"

definition py_8_div_3 :: double where "py_8_div_3 = Finite 6004799503160661 (- 51)"

definition py_0_01 :: double where "py_0_01 = Finite 5764607523034235 (- 59)"

definition py_10_01 :: double where "py_10_01 = Finite 5635129033747333 (- 49)"

definition lorenz_step_double :: "double point \<Rightarrow> double point" where
  "lorenz_step_double = explicit_euler_step py_10 py_28 py_8_div_3 py_0_01"

text \<open>The Euclidean distance between two points whose coordinates are doubles, as a real.\<close>

definition euclidean_distance :: "double point \<Rightarrow> double point \<Rightarrow> real" where
  "euclidean_distance p q =
     (case p of (x1, y1, z1) \<Rightarrow> case q of (x2, y2, z2) \<Rightarrow>
        sqrt ((real_of_double x1 - real_of_double x2)\<^sup>2 +
              (real_of_double y1 - real_of_double y2)\<^sup>2 +
              (real_of_double z1 - real_of_double z2)\<^sup>2))"

text \<open>The number of bits of a positive binary numeral, read off its digits.\<close>

fun num_len :: "num \<Rightarrow> num" where
  "num_len Num.One = Num.One"
| "num_len (Num.Bit0 n) = Num.inc (num_len n)"
| "num_len (Num.Bit1 n) = Num.inc (num_len n)"

section \<open>Properties of the integrators\<close>

lemma length_iterates: "length (iterates f n s) = n"
  by (induction n arbitrary: s) simp_all

lemma iterates_nth_0: "0 < n \<Longrightarrow> iterates f n s ! 0 = f s"
  by (cases n) simp_all

lemma iterates_nth_Suc: "Suc i < n \<Longrightarrow> iterates f n s ! Suc i = f (iterates f n s ! i)"
proof (induction n arbitrary: s i)
  case 0
  then show ?case by simp
next
  case (Suc n)
  show ?case
  proof (cases i)
    case 0
    with Suc.prems show ?thesis by (cases n) simp_all
  next
    case (Suc j)
    with Suc.prems have "Suc j < n" by simp
    from Suc.IH [OF this] Suc show ?thesis by simp
  qed
qed

lemma LorenzSystem_loop_iterates:
  "LorenzSystem_loop sigma rho beta dt n xyz points =
     points @ iterates (explicit_euler_step sigma rho beta dt) n xyz"
proof (induction n arbitrary: xyz points)
  case 0
  show ?case by simp
next
  case (Suc n)
  obtain x y z where xyz: "xyz = (x, y, z)" by (cases xyz)
  show ?case
    by (simp add: xyz Suc.IH explicit_euler_step_def Let_def)
qed

lemma LorenzSystem_points_iterates:
  "LorenzSystem_get_lorenz_points xyz sigma rho beta dt num_points =
     iterates (explicit_euler_step sigma rho beta dt) (nat num_points) xyz"
  by (simp add: LorenzSystem_get_lorenz_points_def LorenzSystem_loop_iterates)

lemma AdvancedChaosSystem_loop_iterates:
  "AdvancedChaosSystem_loop sigma rho beta dt n xyz points derivatives =
     (points @ iterates (explicit_euler_step sigma rho beta dt) n xyz,
      derivatives @ map (lorenz_derivative sigma rho beta)
        (butlast (xyz # iterates (explicit_euler_step sigma rho beta dt) n xyz)))"
proof (induction n arbitrary: xyz points derivatives)
  case 0
  show ?case by simp
next
  case (Suc n)
  obtain x y z where xyz: "xyz = (x, y, z)" by (cases xyz)
  show ?case
    by (simp add: xyz Suc.IH explicit_euler_step_def lorenz_derivative_def Let_def)
qed

lemma AdvancedChaosSystem_points_iterates:
  "fst (AdvancedChaosSystem_get_lorenz_points xyz sigma rho beta dt num_points) =
     iterates (explicit_euler_step sigma rho beta dt) (nat num_points) xyz"
  by (simp add: AdvancedChaosSystem_get_lorenz_points_def AdvancedChaosSystem_loop_iterates)

lemma AdvancedChaosSystem_derivatives_iterates:
  "snd (AdvancedChaosSystem_get_lorenz_points xyz sigma rho beta dt num_points) =
     map (lorenz_derivative sigma rho beta)
       (butlast (xyz # iterates (explicit_euler_step sigma rho beta dt) (nat num_points) xyz))"
  by (simp add: AdvancedChaosSystem_get_lorenz_points_def AdvancedChaosSystem_loop_iterates)

lemma last_butlast_iterates:
  "last (butlast (s # f s # iterates f n (f s))) =
     (if n = 0 then s else last (butlast (f s # iterates f n (f s))))"
  by (cases n) simp_all

lemma ComprehensiveChaosSystem_loop_iterates:
  "ComprehensiveChaosSystem_loop sigma rho beta dt n xyz d points =
     (points @ iterates (explicit_euler_step sigma rho beta dt) n xyz,
      if n = 0 then d
      else Some (lorenz_derivative sigma rho beta
        (last (butlast (xyz # iterates (explicit_euler_step sigma rho beta dt) n xyz)))))"
proof (induction n arbitrary: xyz d points)
  case 0
  show ?case by simp
next
  case (Suc n)
  obtain x y z where xyz: "xyz = (x, y, z)" by (cases xyz)
  let ?step = "explicit_euler_step sigma rho beta dt"
  have step: "?step (x, y, z) =
      (x + sigma * (y - x) * dt, y + (x * (rho - z) - y) * dt, z + (x * y - beta * z) * dt)"
    by (simp add: explicit_euler_step_def)
  have d: "lorenz_derivative sigma rho beta (x, y, z) =
      (sigma * (y - x), x * (rho - z) - y, x * y - beta * z)"
    by (simp add: lorenz_derivative_def)
  have "ComprehensiveChaosSystem_loop sigma rho beta dt (Suc n) xyz d points =
      ComprehensiveChaosSystem_loop sigma rho beta dt n (?step xyz)
        (Some (lorenz_derivative sigma rho beta xyz)) (points @ [?step xyz])"
    by (simp add: xyz step d Let_def)
  also have "\<dots> = (points @ iterates ?step (Suc n) xyz,
      Some (lorenz_derivative sigma rho beta (last (butlast (xyz # iterates ?step (Suc n) xyz)))))"
    unfolding Suc.IH iterates.simps last_butlast_iterates by simp
  finally show ?case by simp
qed

lemma ComprehensiveChaosSystem_unbound:
  "num_points \<le> 0 \<Longrightarrow>
   ComprehensiveChaosSystem_get_lorenz_points xyz sigma rho beta dt num_points =
     Inl UnboundLocalError"
  by (simp add: ComprehensiveChaosSystem_get_lorenz_points_def)

text \<open>
  Claim C1. For \<open>num_points \<ge> 1\<close>, the sequence returned by \<^verbatim>\<open>get_lorenz_points\<close> (the
  list of scene4.py, and the point list of scene6.py) has \<open>num_points\<close> elements, element
  \<open>0\<close> is one explicit Euler step applied to the initial state, and every element \<open>i\<close>
  with \<open>1 \<le> i < num_points\<close> is one explicit Euler step applied to element \<open>i - 1\<close>. All
  emitted elements are thus post-step states: the initial state has no position of its
  own in the output.
\<close>

theorem get_lorenz_points_euler_successors:
  fixes xyz :: "'a::{plus,minus,times} point"
  assumes "1 \<le> num_points"
  shows
    "(let points = LorenzSystem_get_lorenz_points xyz sigma rho beta dt num_points;
          step = explicit_euler_step sigma rho beta dt
      in int (length points) = num_points \<and> points ! 0 = step xyz \<and>
         (\<forall>i. 1 \<le> i \<and> int i < num_points \<longrightarrow> points ! i = step (points ! (i - 1)))) \<and>
     (let points = fst (AdvancedChaosSystem_get_lorenz_points xyz sigma rho beta dt num_points);
          step = explicit_euler_step sigma rho beta dt
      in int (length points) = num_points \<and> points ! 0 = step xyz \<and>
         (\<forall>i. 1 \<le> i \<and> int i < num_points \<longrightarrow> points ! i = step (points ! (i - 1))))"
proof -
  let ?step = "explicit_euler_step sigma rho beta dt"
  let ?its = "iterates ?step (nat num_points) xyz"
  from assms have pos: "0 < nat num_points" by simp
  have len: "int (length ?its) = num_points"
    using assms by (simp add: length_iterates)
  have first: "?its ! 0 = ?step xyz"
    using pos by (rule iterates_nth_0)
  have succ: "?its ! i = ?step (?its ! (i - 1))" if "1 \<le> i" "int i < num_points" for i
  proof -
    from that obtain j where i: "i = Suc j" by (cases i) simp_all
    with that have "Suc j < nat num_points" by simp
    then show ?thesis unfolding i by (simp add: iterates_nth_Suc)
  qed
  show ?thesis
    unfolding LorenzSystem_points_iterates AdvancedChaosSystem_points_iterates Let_def
    using len first succ by blast
qed

theorem get_lorenz_points_euler_successors_witness:
  "(let points = LorenzSystem_get_lorenz_points (1, 1, 1) 10 28 3 (2::int) 2;
        step = explicit_euler_step 10 28 3 2
    in points = [(1, 53, -3), (1041, 9, 121)] \<and> points ! 0 = step (1, 1, 1) \<and>
       points ! 1 = step (points ! 0)) \<and>
   (let points = fst (AdvancedChaosSystem_get_lorenz_points (1, 1, 1) 10 28 3 (2::int) 2);
        step = explicit_euler_step 10 28 3 2
    in points = [(1, 53, -3), (1041, 9, 121)] \<and> points ! 0 = step (1, 1, 1) \<and>
       points ! 1 = step (points ! 0))"
  using get_lorenz_points_euler_successors
    [of 2 "(1, 1, 1) :: int point" 10 28 3 2]
  by (simp add: LorenzSystem_get_lorenz_points_def AdvancedChaosSystem_get_lorenz_points_def
      explicit_euler_step_def Let_def numeral_2_eq_2)

text \<open>
  Claim C2. For every non-negative integer \<open>num_points\<close> the list returned by
  \<^verbatim>\<open>get_lorenz_points\<close> of scene4.py has exactly \<open>num_points\<close> elements, and for
  \<open>num_points = 0\<close> it is the empty list.
\<close>

theorem get_lorenz_points_length:
  fixes xyz :: "'a::{plus,minus,times} point"
  assumes "0 \<le> num_points"
  shows "int (length (LorenzSystem_get_lorenz_points xyz sigma rho beta dt num_points)) = num_points \<and>
         LorenzSystem_get_lorenz_points xyz sigma rho beta dt 0 = []"
  using assms
  by (simp add: LorenzSystem_points_iterates length_iterates)

theorem get_lorenz_points_length_witness:
  "int (length (LorenzSystem_get_lorenz_points (10, 10, 10) 10 28 (8 / 3) (1 / 100 :: real) 2000)) = 2000 \<and>
   LorenzSystem_get_lorenz_points (10, 10, 10) 10 28 (8 / 3) (1 / 100 :: real) 0 = []"
  using get_lorenz_points_length [of 2000 "(10, 10, 10) :: real point" 10 28 "8 / 3" "1 / 100"]
  by simp

text \<open>
  Claim C3, as stated, fails in its last coordinate. With \<open>num_points = 1\<close>, \<open>dt = 0.01\<close>,
  \<open>sigma = 10\<close>, \<open>rho = 28\<close>, \<open>beta = 8/3\<close> and the initial state \<open>(1, 1, 1)\<close>, the third
  coordinate of the returned point is \<open>1 + (1 - 8/3) * 0.01 = 59/60\<close>, about \<open>0.983333\<close>:
  \<open>1*1 - 8/3*1\<close> is \<open>-5/3\<close>, not \<open>-2/3\<close>. It is \<open>0.01\<close> away from the \<open>0.993333\<close> of the
  claim.
\<close>

theorem get_lorenz_points_single_step_counterexample:
  "snd (snd (hd (LorenzSystem_get_lorenz_points (1, 1, 1) 10 28 (8 / 3) (0.01 :: real) 1))) = 59 / 60 \<and>
   \<bar>snd (snd (hd (LorenzSystem_get_lorenz_points (1, 1, 1) 10 28 (8 / 3) (0.01 :: real) 1)))
      - 0.993333\<bar> > 0.0099"
  by (simp add: LorenzSystem_get_lorenz_points_def)

text \<open>
  Claim C3, amended. With the same inputs, scene4.py's \<^verbatim>\<open>get_lorenz_points\<close> returns the
  single point \<open>(1 + 0*0.01, 1 + 26*0.01, 1 + (1*1 - 8/3*1)*0.01)\<close>, which over the reals is
  \<open>(1, 1.26, 59/60)\<close>, within \<open>10\<^sup>-\<^sup>6\<close> of \<open>(1.0, 1.26, 0.983333)\<close>.
\<close>

theorem get_lorenz_points_single_step:
  "LorenzSystem_get_lorenz_points (1, 1, 1) 10 28 (8 / 3) (0.01 :: real) 1 =
     [(1 + 0 * 0.01, 1 + 26 * 0.01, 1 + (1 * 1 - 8 / 3 * 1) * 0.01)] \<and>
   (1 + 0 * 0.01, 1 + 26 * 0.01, 1 + (1 * 1 - 8 / 3 * 1) * 0.01) = ((1, 1.26, 59 / 60) :: real point) \<and>
   \<bar>59 / 60 - 0.983333 :: real\<bar> < 0.000001"
  by (simp add: LorenzSystem_get_lorenz_points_def)

text \<open>
  Claim C4, as stated, fails for scene6.py: its second result is not the final derivative
  triple but the list \<^verbatim>\<open>derivatives\<close> of the triples of all iterations. With
  \<open>num_points = 1\<close> and the default parameters it is the one-element list \<open>[[0, 26, -5/3]]\<close>,
  a different Python object from the triple \<open>[0, 26, -5/3]\<close>.
\<close>

theorem derivative_variants_counterexample:
  "snd (AdvancedChaosSystem_get_lorenz_points (1, 1, 1) 10 28 (8 / 3) (0.01 :: real) 1) =
     [(0, 26, - (5 / 3))] \<and>
   lorenz_derivative 10 28 (8 / 3) ((1, 1, 1) :: real point) = (0, 26, - (5 / 3)) \<and>
   py_points (snd (AdvancedChaosSystem_get_lorenz_points (1, 1, 1) 10 28 (8 / 3) (0.01 :: real) 1)) \<noteq>
     py_point (lorenz_derivative 10 28 (8 / 3) ((1, 1, 1) :: real point))"
  by (simp add: AdvancedChaosSystem_get_lorenz_points_def lorenz_derivative_def py_points_def
      py_point_def)

text \<open>
  Claim C4, amended. For \<open>num_points \<ge> 1\<close>, scene5.py's \<^verbatim>\<open>get_lorenz_points\<close> returns the
  point sequence of the base integrator of scene4.py together with exactly the derivative
  triple computed in the last iteration (the derivative at the state that entered it).
  scene6.py's returns the same point sequence together with the list of the derivative
  triples of all \<open>num_points\<close> iterations in order, whose last element is that final
  triple.
\<close>

theorem derivative_variants:
  fixes xyz :: "'a::{plus,minus,times} point"
  assumes "1 \<le> num_points"
  shows
    "(let points = LorenzSystem_get_lorenz_points xyz sigma rho beta dt num_points;
          entered = butlast (xyz # points);
          final = lorenz_derivative sigma rho beta (last entered)
      in ComprehensiveChaosSystem_get_lorenz_points xyz sigma rho beta dt num_points =
           Inr (points, final) \<and>
         AdvancedChaosSystem_get_lorenz_points xyz sigma rho beta dt num_points =
           (points, map (lorenz_derivative sigma rho beta) entered) \<and>
         int (length (snd (AdvancedChaosSystem_get_lorenz_points xyz sigma rho beta dt num_points))) =
           num_points \<and>
         last (snd (AdvancedChaosSystem_get_lorenz_points xyz sigma rho beta dt num_points)) = final)"
proof -
  let ?step = "explicit_euler_step sigma rho beta dt"
  let ?its = "iterates ?step (nat num_points) xyz"
  let ?entered = "butlast (xyz # ?its)"
  from assms have n: "nat num_points \<noteq> 0" by simp
  have "length ?entered = nat num_points"
    by (simp only: length_butlast length_Cons length_iterates diff_Suc_1)
  with assms have len: "int (length ?entered) = num_points" by simp
  then have ne: "?entered \<noteq> []" using assms by auto
  have five: "ComprehensiveChaosSystem_get_lorenz_points xyz sigma rho beta dt num_points =
      Inr (?its, lorenz_derivative sigma rho beta (last ?entered))"
    using n by (simp add: ComprehensiveChaosSystem_get_lorenz_points_def
        ComprehensiveChaosSystem_loop_iterates)
  have six: "AdvancedChaosSystem_get_lorenz_points xyz sigma rho beta dt num_points =
      (?its, map (lorenz_derivative sigma rho beta) ?entered)"
    by (rule prod_eqI)
      (simp_all only: AdvancedChaosSystem_points_iterates AdvancedChaosSystem_derivatives_iterates
        fst_conv snd_conv)
  have len6: "int (length (map (lorenz_derivative sigma rho beta) ?entered)) = num_points"
    using len by simp
  have last6: "last (map (lorenz_derivative sigma rho beta) ?entered) =
      lorenz_derivative sigma rho beta (last ?entered)"
    using ne by (rule last_map)
  show ?thesis
    unfolding Let_def LorenzSystem_points_iterates six snd_conv
    using five len6 last6 by simp
qed

theorem derivative_variants_witness:
  "ComprehensiveChaosSystem_get_lorenz_points (1, 1, 1) 10 28 3 (2::int) 2 =
     Inr ([(1, 53, -3), (1041, 9, 121)], (520, -22, 62)) \<and>
   AdvancedChaosSystem_get_lorenz_points (1, 1, 1) 10 28 3 (2::int) 2 =
     ([(1, 53, -3), (1041, 9, 121)], [(0, 26, -2), (520, -22, 62)]) \<and>
   LorenzSystem_get_lorenz_points (1, 1, 1) 10 28 3 (2::int) 2 = [(1, 53, -3), (1041, 9, 121)]"
  using derivative_variants [of 2 "(1, 1, 1) :: int point" 10 28 3 2]
  by (simp add: LorenzSystem_get_lorenz_points_def lorenz_derivative_def Let_def numeral_2_eq_2)

section \<open>Properties of the pendulum\<close>

text \<open>
  Claim C7. For every \<open>theta_0\<close>, \<open>damping\<close> and \<open>omega\<close>, the kinematics at \<open>t = 0\<close> give
  \<open>theta = theta_0\<close> and \<open>theta_dot = -damping * theta_0\<close>.
\<close>

theorem pendulum_at_time_zero:
  "theta 0 theta_0 damping omega = theta_0 \<and>
   theta_dot 0 theta_0 damping omega = - damping * theta_0"
  by (simp add: theta_def theta_dot_def)

text \<open>
  Claim C8, as stated, fails for a negative \<open>theta_0\<close>: the right-hand side of the bound
  is then negative. At \<open>t = 0\<close> with \<open>theta_0 = -1\<close> the angle has magnitude \<open>1\<close> and the
  bound is \<open>-1\<close>.
\<close>

theorem pendulum_envelope_counterexample:
  "\<not> \<bar>theta 0 (- 1) (1 / 10) 1\<bar> \<le> (- 1) * exp (- (1 / 10) * 0)"
  by (simp add: theta_def)

text \<open>
  Claim C8, amended. For every \<open>theta_0 \<ge> 0\<close> (the script's is \<open>\<pi>/3\<close>), every \<open>damping\<close> and
  \<open>omega\<close> and every \<open>t \<ge> 0\<close>, \<open>|theta(t)| \<le> theta_0 * exp(-damping * t)\<close>.
\<close>

theorem pendulum_envelope:
  assumes "0 \<le> theta_0" and "0 \<le> t"
  shows "\<bar>theta t theta_0 damping omega\<bar> \<le> theta_0 * exp (- damping * t)"
proof -
  have "\<bar>theta t theta_0 damping omega\<bar> = theta_0 * exp (- damping * t) * \<bar>cos (omega * t)\<bar>"
    using assms(1) by (simp add: theta_def abs_mult)
  also have "\<dots> \<le> theta_0 * exp (- damping * t) * 1"
    using assms(1) by (intro mult_left_mono) simp_all
  finally show ?thesis by simp
qed

theorem pendulum_envelope_witness:
  "(0::real) \<le> pi / 3 \<and> (0::real) \<le> 1 \<and>
   \<bar>theta 1 (pi / 3) (1 / 10) 2\<bar> \<le> pi / 3 * exp (- (1 / 10) * 1)"
  using pendulum_envelope [of "pi / 3" 1 "1 / 10" 2] by simp

lemma length_slice_last: "length (slice_last k xs) = min k (length xs)"
  by (simp add: slice_last_def)

lemma suffix_slice_last: "suffix (slice_last k xs) xs"
  by (simp add: slice_last_def suffix_drop)

lemma slice_last_append: "slice_last k (slice_last k xs @ ys) = slice_last k (xs @ ys)"
  by (cases "length xs \<le> k") (simp_all add: slice_last_def add.commute)

lemma cap_is_slice_last: "(if length xs > k then slice_last k xs else xs) = slice_last k xs"
  by (simp add: slice_last_def)

lemma update_pendulum_path:
  "path_points (update_pendulum seg e dt s) =
     slice_last 150 (path_points s @ seg (path_points s) (new_bob_pos e (time s + dt)))"
  by (simp add: update_pendulum_def Let_def add_points_as_corners_def cap_is_slice_last
      del: One_nat_def)

lemma update_pendulum_trail:
  "phase_trail_points (update_pendulum seg e dt s) =
     slice_last 150
       (phase_trail_points s @ seg (phase_trail_points s) (phase_point_pos e (time s + dt)))"
  by (simp add: update_pendulum_def Let_def add_points_as_corners_def cap_is_slice_last)

lemma frames_path:
  "path_points (frames seg e dts s) =
     (if dts = [] then path_points s
      else slice_last 150 (path_points s @ path_appended seg e dts s))"
proof (induction dts arbitrary: s)
  case Nil
  show ?case by (simp add: frames_def)
next
  case (Cons dt dts)
  have "path_points (frames seg e (dt # dts) s) =
      path_points (frames seg e dts (update_pendulum seg e dt s))"
    by (simp add: frames_def)
  also have "\<dots> = slice_last 150 (path_points s @ path_appended seg e (dt # dts) s)"
    unfolding Cons.IH update_pendulum_path
    by (cases dts) (simp_all add: slice_last_append)
  finally show ?case by simp
qed

lemma frames_trail:
  "phase_trail_points (frames seg e dts s) =
     (if dts = [] then phase_trail_points s
      else slice_last 150 (phase_trail_points s @ trail_appended seg e dts s))"
proof (induction dts arbitrary: s)
  case Nil
  show ?case by (simp add: frames_def)
next
  case (Cons dt dts)
  have "phase_trail_points (frames seg e (dt # dts) s) =
      phase_trail_points (frames seg e dts (update_pendulum seg e dt s))"
    by (simp add: frames_def)
  also have "\<dots> = slice_last 150 (phase_trail_points s @ trail_appended seg e (dt # dts) s)"
    unfolding Cons.IH update_pendulum_trail
    by (cases dts) (simp_all add: slice_last_append)
  finally show ?case by simp
qed

text \<open>
  Claim C9. After every invocation of the per-frame updater (after any non-empty run of
  frames, from any scene state and whatever points the framework appends per corner),
  the trailing path and the phase-space trail each hold at most 150 points, and each
  holds exactly the most recent points in their original order: the buffer is the
  suffix, of length 150 or of full length when fewer points exist, of the sequence made
  of its earlier content followed by all the points appended since. What is discarded
  is therefore the oldest points, and only when the cap is exceeded.
\<close>

theorem trail_buffers_fifo:
  assumes "dts \<noteq> []"
  shows
    "(let s' = frames seg e dts s;
          all_path = path_points s @ path_appended seg e dts s;
          all_trail = phase_trail_points s @ trail_appended seg e dts s
      in length (path_points s') \<le> 150 \<and>
         length (phase_trail_points s') \<le> 150 \<and>
         suffix (path_points s') all_path \<and>
         length (path_points s') = min 150 (length all_path) \<and>
         suffix (phase_trail_points s') all_trail \<and>
         length (phase_trail_points s') = min 150 (length all_trail))"
proof -
  let ?all_path = "path_points s @ path_appended seg e dts s"
  let ?all_trail = "phase_trail_points s @ trail_appended seg e dts s"
  have path: "path_points (frames seg e dts s) = slice_last 150 ?all_path"
    using assms by (simp add: frames_path)
  have trail: "phase_trail_points (frames seg e dts s) = slice_last 150 ?all_trail"
    using assms by (simp add: frames_trail)
  have "length (slice_last 150 ?all_path) \<le> 150" "length (slice_last 150 ?all_trail) \<le> 150"
    by (simp_all only: length_slice_last min.cobounded1)
  moreover have "suffix (slice_last 150 ?all_path) ?all_path"
    "suffix (slice_last 150 ?all_trail) ?all_trail"
    by (rule suffix_slice_last)+
  moreover have "length (slice_last 150 ?all_path) = min 150 (length ?all_path)"
    "length (slice_last 150 ?all_trail) = min 150 (length ?all_trail)"
    by (rule length_slice_last)+
  ultimately show ?thesis
    unfolding Let_def path trail by blast
qed

theorem trail_buffers_fifo_witness:
  "[1 / 60, 1 / 60] \<noteq> ([] :: real list) \<and>
   length (path_points (frames (\<lambda>acc c. [c, c]) construct_env [1 / 60, 1 / 60]
     \<lparr>time = 0, bob = (0, 0, 0), bob_glow = (0, 0, 0), rod = ((0, 0, 0), (0, 0, 0)),
      path_points = replicate 149 (0, 0, 0), potential_bar = 0, kinetic_bar = 0,
      phase_point = (0, 0, 0), phase_trail_points = replicate 2 (0, 0, 0)\<rparr>)) = 150 \<and>
   length (phase_trail_points (frames (\<lambda>acc c. [c, c]) construct_env [1 / 60, 1 / 60]
     \<lparr>time = 0, bob = (0, 0, 0), bob_glow = (0, 0, 0), rod = ((0, 0, 0), (0, 0, 0)),
      path_points = replicate 149 (0, 0, 0), potential_bar = 0, kinetic_bar = 0,
      phase_point = (0, 0, 0), phase_trail_points = replicate 2 (0, 0, 0)\<rparr>)) = 6"
  using trail_buffers_fifo [of "[1 / 60, 1 / 60]" "\<lambda>acc c. [c, c]" construct_env
    "\<lparr>time = 0, bob = (0, 0, 0), bob_glow = (0, 0, 0), rod = ((0, 0, 0), (0, 0, 0)),
      path_points = replicate 149 (0, 0, 0), potential_bar = 0, kinetic_bar = 0,
      phase_point = (0, 0, 0), phase_trail_points = replicate 2 (0, 0, 0)\<rparr>"]
  by (simp add: Let_def)

section \<open>Properties of the integrators on the store\<close>

lemma alloc_fst: "fst (alloc obj h) = next_addr h"
  by (simp add: alloc_def)

lemma alloc_next: "next_addr (snd (alloc obj h)) = Suc (next_addr h)"
  by (simp add: alloc_def)

lemma alloc_objs: "objs (snd (alloc obj h)) b = (if b = next_addr h then obj else objs h b)"
  by (simp add: alloc_def)

lemma list_append_next: "next_addr (list_append a v h) = next_addr h"
  by (simp add: list_append_def)

lemma list_append_objs:
  "objs (list_append a v h) b = (if b = a then objs h a @ [v] else objs h b)"
  by (simp add: list_append_def)

lemmas store_simps = alloc_fst alloc_next alloc_objs list_append_next list_append_objs

lemma LorenzSystem_loop_heap_frame:
  "LorenzSystem_loop_heap sigma rho beta dt n points xyz h = Inr h' \<Longrightarrow>
   b \<noteq> points \<Longrightarrow> b < next_addr h \<Longrightarrow> objs h' b = objs h b"
proof (induction n arbitrary: xyz h)
  case 0
  then show ?case by simp
next
  case (Suc n)
  from Suc.prems(1) obtain x y z where num: "as_numbers xyz = Some (x, y, z)"
    by (cases "as_numbers xyz") auto
  let ?p = "explicit_euler_step sigma rho beta dt (x, y, z)"
  let ?h2 = "list_append points (HRef (next_addr h)) (snd (alloc (point_obj ?p) h))"
  have run: "LorenzSystem_loop_heap sigma rho beta dt n points
      (HNum (fst ?p), HNum (fst (snd ?p)), HNum (snd (snd ?p))) ?h2 = Inr h'"
    using Suc.prems(1)
    by (simp add: num Let_def split_beta store_simps explicit_euler_step_def point_obj_def)
  have "objs h' b = objs ?h2 b"
    using Suc.prems(3) by (intro Suc.IH [OF run Suc.prems(2)]) (simp add: store_simps)
  also have "\<dots> = objs h b"
    using Suc.prems(2,3) by (simp add: store_simps)
  finally show ?case .
qed

lemma AdvancedChaosSystem_loop_heap_frame:
  "AdvancedChaosSystem_loop_heap sigma rho beta dt n points derivatives xyz h = Inr h' \<Longrightarrow>
   b \<noteq> points \<Longrightarrow> b \<noteq> derivatives \<Longrightarrow> b < next_addr h \<Longrightarrow> objs h' b = objs h b"
proof (induction n arbitrary: xyz h)
  case 0
  then show ?case by simp
next
  case (Suc n)
  from Suc.prems(1) obtain x y z where num: "as_numbers xyz = Some (x, y, z)"
    by (cases "as_numbers xyz") auto
  let ?p = "explicit_euler_step sigma rho beta dt (x, y, z)"
  let ?d = "lorenz_derivative sigma rho beta (x, y, z)"
  let ?h2 = "list_append derivatives (HRef (next_addr h)) (snd (alloc (point_obj ?d) h))"
  let ?h4 = "list_append points (HRef (next_addr ?h2)) (snd (alloc (point_obj ?p) ?h2))"
  have run: "AdvancedChaosSystem_loop_heap sigma rho beta dt n points derivatives
      (HNum (fst ?p), HNum (fst (snd ?p)), HNum (snd (snd ?p))) ?h4 = Inr h'"
    using Suc.prems(1)
    by (simp add: num Let_def split_beta store_simps explicit_euler_step_def
        lorenz_derivative_def point_obj_def)
  have "objs h' b = objs ?h4 b"
    using Suc.prems(4) by (intro Suc.IH [OF run Suc.prems(2,3)]) (simp add: store_simps)
  also have "\<dots> = objs h b"
    using Suc.prems(2,3,4) by (simp add: store_simps)
  finally show ?case .
qed

lemma LorenzSystem_loop_heap_result:
  "points < next_addr h \<Longrightarrow>
   \<exists>h'. LorenzSystem_loop_heap sigma rho beta dt n points (HNum x, HNum y, HNum z) h = Inr h' \<and>
     objs h' points = objs h points @ map HRef [next_addr h ..< next_addr h + n] \<and>
     (\<forall>i<n. objs h' (next_addr h + i) =
        point_obj (iterates (explicit_euler_step sigma rho beta dt) n (x, y, z) ! i))"
proof (induction n arbitrary: x y z h)
  case 0
  show ?case by simp
next
  case (Suc n)
  let ?step = "explicit_euler_step sigma rho beta dt"
  obtain x' y' z' where p: "?step (x, y, z) = (x', y', z')"
    by (cases "?step (x, y, z)")
  let ?h2 = "list_append points (HRef (next_addr h)) (snd (alloc (point_obj (x', y', z')) h))"
  have unfold: "LorenzSystem_loop_heap sigma rho beta dt (Suc n) points (HNum x, HNum y, HNum z) h =
      LorenzSystem_loop_heap sigma rho beta dt n points (HNum x', HNum y', HNum z') ?h2"
    using p by (simp add: Let_def split_beta store_simps explicit_euler_step_def point_obj_def)
  have next2: "next_addr ?h2 = Suc (next_addr h)"
    by (simp add: store_simps)
  have "points < next_addr ?h2"
    using Suc.prems by (simp add: store_simps)
  from Suc.IH [OF this, of x' y' z'] obtain h' where
    run: "LorenzSystem_loop_heap sigma rho beta dt n points (HNum x', HNum y', HNum z') ?h2 = Inr h'"
    and pts: "objs h' points = objs ?h2 points @ map HRef [next_addr ?h2 ..< next_addr ?h2 + n]"
    and new: "\<And>i. i < n \<Longrightarrow> objs h' (next_addr ?h2 + i) = point_obj (iterates ?step n (x', y', z') ! i)"
    by blast
  have first: "objs h' (next_addr h) = point_obj (x', y', z')"
  proof -
    have "objs h' (next_addr h) = objs ?h2 (next_addr h)"
      using Suc.prems by (intro LorenzSystem_loop_heap_frame [OF run]) (simp_all add: store_simps)
    also have "\<dots> = point_obj (x', y', z')"
      using Suc.prems by (simp add: store_simps)
    finally show ?thesis .
  qed
  have pts': "objs h' points = objs h points @ map HRef [next_addr h ..< next_addr h + Suc n]"
    using Suc.prems unfolding pts next2
    by (simp add: store_simps upt_conv_Cons del: upt_Suc)
  have new': "objs h' (next_addr h + i) = point_obj (iterates ?step (Suc n) (x, y, z) ! i)"
    if "i < Suc n" for i
  proof (cases i)
    case 0
    then show ?thesis using first p by simp
  next
    case (Suc j)
    with that have "j < n" by simp
    from new [OF this] show ?thesis unfolding next2 Suc using p by simp
  qed
  show ?case
    unfolding unfold using run pts' new' by blast
qed

lemma read_fresh_points:
  assumes "objs h' p = map HRef [m ..< m + n]"
    and "\<And>i. i < n \<Longrightarrow> objs h' (m + i) = point_obj (ps ! i)"
    and "length ps = n"
  shows "read_list_of_lists h' (HRef p) = map point_obj ps"
proof (rule nth_equalityI)
  show "length (read_list_of_lists h' (HRef p)) = length (map point_obj ps)"
    using assms(1,3) by (simp add: read_list_of_lists_def)
next
  fix i
  assume "i < length (read_list_of_lists h' (HRef p))"
  then have i: "i < n" using assms(1) by (simp add: read_list_of_lists_def)
  then show "read_list_of_lists h' (HRef p) ! i = map point_obj ps ! i"
    using assms by (simp add: read_list_of_lists_def)
qed

lemma LorenzSystem_heap_numbers:
  assumes "a < next_addr h" and "objs h a = [HNum x, HNum y, HNum z]"
  shows "returned_points (LorenzSystem_get_lorenz_points_heap h (HRef a) sigma rho beta dt num_points) =
     Inr (map point_obj (LorenzSystem_get_lorenz_points (x, y, z) sigma rho beta dt num_points))"
proof -
  let ?step = "explicit_euler_step sigma rho beta dt"
  let ?n = "nat num_points"
  let ?p = "next_addr h"
  let ?h1 = "snd (alloc [] h)"
  have unpack: "unpack3 ?h1 (HRef a) = Inr (HNum x, HNum y, HNum z)"
    using assms by (simp add: unpack3_def store_simps)
  have "?p < next_addr ?h1" by (simp add: store_simps)
  from LorenzSystem_loop_heap_result [OF this, of sigma rho beta dt ?n x y z] obtain h' where
    run: "LorenzSystem_loop_heap sigma rho beta dt ?n ?p (HNum x, HNum y, HNum z) ?h1 = Inr h'"
    and pts: "objs h' ?p = objs ?h1 ?p @ map HRef [next_addr ?h1 ..< next_addr ?h1 + ?n]"
    and new: "\<And>i. i < ?n \<Longrightarrow> objs h' (next_addr ?h1 + i) = point_obj (iterates ?step ?n (x, y, z) ! i)"
    by blast
  have call: "LorenzSystem_get_lorenz_points_heap h (HRef a) sigma rho beta dt num_points =
      Inr (HRef ?p, h')"
    using unpack run
    by (simp add: LorenzSystem_get_lorenz_points_heap_def split_beta alloc_fst)
  have "objs h' ?p = map HRef [next_addr ?h1 ..< next_addr ?h1 + ?n]"
    using pts by (simp add: store_simps)
  then have "read_list_of_lists h' (HRef ?p) = map point_obj (iterates ?step ?n (x, y, z))"
    using new by (rule read_fresh_points) (simp_all add: length_iterates)
  then show ?thesis
    by (simp add: call returned_points_def LorenzSystem_points_iterates)
qed

lemma LorenzSystem_heap_wrong_length:
  assumes "a < next_addr h" and "length (objs h a) \<noteq> 3"
  shows "LorenzSystem_get_lorenz_points_heap h (HRef a) sigma rho beta dt num_points = Inl ValueError"
proof -
  have "objs (snd (alloc [] h)) a = objs h a"
    using assms(1) by (simp add: store_simps)
  then have "unpack3 (snd (alloc [] h)) (HRef a) = Inl ValueError"
    using assms(2) by (auto simp add: unpack3_def split: list.splits)
  then show ?thesis
    by (simp add: LorenzSystem_get_lorenz_points_heap_def split_beta)
qed

text \<open>
  Claim C5. The trajectory generator of scene4.py is deterministic: two invocations with
  identical inputs (the same three numbers in the argument list, the same parameters),
  made in any two stores and with the argument at any two addresses, return the same
  sequence of points, or raise the same error. The result is a function of the inputs
  alone; the arithmetic is any fixed \<open>+\<close>, \<open>-\<close>, \<open>*\<close>, so for the machine's arithmetic the
  results are identical bit for bit. The source calls no random-number or input/output
  function, and the embedding has none.
\<close>

theorem get_lorenz_points_deterministic:
  assumes "a1 < next_addr h1" and "a2 < next_addr h2"
    and "objs h1 a1 = map HNum ns" and "objs h2 a2 = map HNum ns"
  shows "returned_points (LorenzSystem_get_lorenz_points_heap h1 (HRef a1) sigma rho beta dt num_points) =
         returned_points (LorenzSystem_get_lorenz_points_heap h2 (HRef a2) sigma rho beta dt num_points)"
proof (cases "length ns = 3")
  case True
  then obtain x y z where ns: "ns = [x, y, z]"
    by (auto simp add: length_Suc_conv numeral_3_eq_3)
  show ?thesis
    using assms unfolding ns
    by (simp add: LorenzSystem_heap_numbers)
next
  case False
  then show ?thesis
    using assms by (simp add: LorenzSystem_heap_wrong_length)
qed

theorem get_lorenz_points_deterministic_witness:
  "returned_points (LorenzSystem_get_lorenz_points_heap
     \<lparr>objs = (\<lambda>a. [])(0 := [HNum 1, HNum 1, HNum 1]), next_addr = 1\<rparr> (HRef 0) 10 28 3 (2::int) 2) =
   Inr [[HNum 1, HNum 53, HNum (- 3)], [HNum 1041, HNum 9, HNum 121]] \<and>
   returned_points (LorenzSystem_get_lorenz_points_heap
     \<lparr>objs = (\<lambda>a. [])(0 := [HNum 7], 1 := [HNum 1, HNum 1, HNum 1]), next_addr = 2\<rparr> (HRef 1) 10 28 3 (2::int) 2) =
   Inr [[HNum 1, HNum 53, HNum (- 3)], [HNum 1041, HNum 9, HNum 121]]"
  using get_lorenz_points_deterministic [of 0
    "\<lparr>objs = (\<lambda>a. [])(0 := [HNum 1, HNum 1, HNum 1]), next_addr = 1\<rparr>" 1
    "\<lparr>objs = (\<lambda>a. [])(0 := [HNum 7], 1 := [HNum 1, HNum 1, HNum 1]), next_addr = 2\<rparr>"
    "[1, 1, 1]" 10 28 3 "2::int" 2]
  by (simp add: LorenzSystem_heap_numbers LorenzSystem_get_lorenz_points_def point_obj_def
      numeral_2_eq_2)

text \<open>
  Claim C10. When a call of \<^verbatim>\<open>get_lorenz_points\<close> (scene4.py, scene6.py) returns, the list
  object that the argument \<^verbatim>\<open>xyz\<close> refers to is what it was at the call, and so is every
  other object that existed at the call: the method writes only to the list objects it
  allocates itself.
\<close>

theorem get_lorenz_points_leaves_argument:
  assumes "a < next_addr h"
  shows
    "(\<forall>r h'. LorenzSystem_get_lorenz_points_heap h (HRef a) sigma rho beta dt num_points = Inr (r, h') \<longrightarrow>
        objs h' a = objs h a \<and> (\<forall>b<next_addr h. objs h' b = objs h b)) \<and>
     (\<forall>r h'. AdvancedChaosSystem_get_lorenz_points_heap h (HRef a) sigma rho beta dt num_points = Inr (r, h') \<longrightarrow>
        objs h' a = objs h a \<and> (\<forall>b<next_addr h. objs h' b = objs h b))"
proof -
  have four: "objs h' b = objs h b"
    if "LorenzSystem_get_lorenz_points_heap h (HRef a) sigma rho beta dt num_points = Inr (r, h')"
      and "b < next_addr h" for r h' b
  proof -
    let ?h1 = "snd (alloc [] h)"
    from that(1) obtain v where
      run: "LorenzSystem_loop_heap sigma rho beta dt (nat num_points) (next_addr h) v ?h1 = Inr h'"
      by (auto simp add: LorenzSystem_get_lorenz_points_heap_def split_beta alloc_fst
          split: sum.splits)
    have "objs h' b = objs ?h1 b"
      using that(2) by (intro LorenzSystem_loop_heap_frame [OF run]) (simp_all add: store_simps)
    also have "\<dots> = objs h b"
      using that(2) by (simp add: store_simps)
    finally show ?thesis .
  qed
  have six: "objs h' b = objs h b"
    if "AdvancedChaosSystem_get_lorenz_points_heap h (HRef a) sigma rho beta dt num_points = Inr (r, h')"
      and "b < next_addr h" for r h' b
  proof -
    let ?h1 = "snd (alloc [] h)"
    let ?h2 = "snd (alloc [] ?h1)"
    from that(1) obtain v where
      run: "AdvancedChaosSystem_loop_heap sigma rho beta dt (nat num_points) (next_addr h)
        (Suc (next_addr h)) v ?h2 = Inr h'"
      by (auto simp add: AdvancedChaosSystem_get_lorenz_points_heap_def split_beta store_simps
          split: sum.splits)
    have "objs h' b = objs ?h2 b"
      using that(2) by (intro AdvancedChaosSystem_loop_heap_frame [OF run]) (simp_all add: store_simps)
    also have "\<dots> = objs h b"
      using that(2) by (simp add: store_simps)
    finally show ?thesis .
  qed
  from four six assms show ?thesis by blast
qed

theorem get_lorenz_points_leaves_argument_witness:
  "(case LorenzSystem_get_lorenz_points_heap
      \<lparr>objs = (\<lambda>a. [])(0 := [HNum 1, HNum 1, HNum 1]), next_addr = 1\<rparr> (HRef 0) 10 28 3 (2::int) 2 of
      Inl err \<Rightarrow> False
    | Inr (r, h') \<Rightarrow> r = HRef 1 \<and> objs h' 0 = [HNum 1, HNum 1, HNum 1] \<and>
        objs h' 1 = [HRef 2, HRef 3] \<and> objs h' 3 = [HNum 1041, HNum 9, HNum 121]) \<and>
   (case AdvancedChaosSystem_get_lorenz_points_heap
      \<lparr>objs = (\<lambda>a. [])(0 := [HNum 1, HNum 1, HNum 1]), next_addr = 1\<rparr> (HRef 0) 10 28 3 (2::int) 2 of
      Inl err \<Rightarrow> False
    | Inr (r, h') \<Rightarrow> r = (HRef 1, HRef 2) \<and> objs h' 0 = [HNum 1, HNum 1, HNum 1] \<and>
        objs h' 1 = [HRef 4, HRef 6] \<and> objs h' 2 = [HRef 3, HRef 5] \<and>
        objs h' 5 = [HNum 520, HNum (- 22), HNum 62] \<and> objs h' 6 = [HNum 1041, HNum 9, HNum 121])"
  using get_lorenz_points_leaves_argument [of 0
    "\<lparr>objs = (\<lambda>a. [])(0 := [HNum 1, HNum 1, HNum 1]), next_addr = 1\<rparr>" 10 28 3 "2::int" 2]
  by (simp add: LorenzSystem_get_lorenz_points_heap_def
      AdvancedChaosSystem_get_lorenz_points_heap_def alloc_def list_append_def unpack3_def
      Let_def numeral_2_eq_2)

section \<open>The integrator in double-precision arithmetic\<close>

subsection \<open>The rounding, and the script's literals\<close>

text \<open>
  \<open>round_nearest_even a k\<close> is within half a unit of \<open>a / 2\<^sup>k\<close>, and even when it is
  exactly half a unit away. The doubles of the literals are the nearest ones: they are
  exact, or closer than half a unit in the last place.
\<close>

lemma round_nearest_even_nearest:
  "\<bar>2 * (round_nearest_even a k * 2 ^ k - a)\<bar> \<le> 2 ^ k"
  "\<bar>2 * (round_nearest_even a k * 2 ^ k - a)\<bar> = 2 ^ k \<Longrightarrow> even (round_nearest_even a k)"
proof -
  define q where "q = a div 2 ^ k"
  define r where "r = a mod 2 ^ k"
  have a: "a = q * 2 ^ k + r"
    unfolding q_def r_def by (rule div_mult_mod_eq [symmetric])
  have r: "0 \<le> r" "r < 2 ^ k" by (simp_all add: r_def)
  consider "2 * r < 2 ^ k" | "2 ^ k < 2 * r" | "2 * r = 2 ^ k" by linarith
  then have "\<bar>2 * (round_nearest_even a k * 2 ^ k - a)\<bar> \<le> 2 ^ k \<and>
    (\<bar>2 * (round_nearest_even a k * 2 ^ k - a)\<bar> = 2 ^ k \<longrightarrow> even (round_nearest_even a k))"
  proof cases
    case 1
    then have "round_nearest_even a k = q"
      by (simp add: round_nearest_even_def Let_def q_def r_def)
    with 1 r a show ?thesis by (simp add: algebra_simps)
  next
    case 2
    then have "round_nearest_even a k = q + 1"
      by (simp add: round_nearest_even_def Let_def q_def r_def)
    with 2 r a show ?thesis by (simp add: algebra_simps)
  next
    case 3
    then have "round_nearest_even a k = (if even q then q else q + 1)"
      by (simp add: round_nearest_even_def Let_def q_def r_def)
    with 3 r a show ?thesis by (auto simp add: algebra_simps)
  qed
  then show "\<bar>2 * (round_nearest_even a k * 2 ^ k - a)\<bar> \<le> 2 ^ k"
    and "\<bar>2 * (round_nearest_even a k * 2 ^ k - a)\<bar> = 2 ^ k \<Longrightarrow> even (round_nearest_even a k)"
    by simp_all
qed

lemma python_literals_nearest:
  "real_of_double py_10 = 10"
  "real_of_double py_28 = 28"
  "\<bar>real_of_double py_8_div_3 - 8 / 3\<bar> < 1 / 2 ^ 52"
  "\<bar>real_of_double py_0_01 - 1 / 100\<bar> < 1 / 2 ^ 60"
  "\<bar>real_of_double py_10_01 - 1001 / 100\<bar> < 1 / 2 ^ 50"
  by (simp_all add: real_of_double_def py_10_def py_28_def py_8_div_3_def py_0_01_def py_10_01_def)

subsection \<open>Evaluating the arithmetic on numerals\<close>

text \<open>
  The operations on \<open>Finite\<close> numbers with numeral significands, in a form that rewriting
  evaluates: shifts for the powers of two, the bit length read off the numeral, and the
  rounding decided from the bits shifted out.
\<close>

lemma bitlen_numeral: "bitlen (numeral n) = numeral (num_len n)"
proof (induction n)
  case One
  show ?case by (simp add: compute_bitlen)
next
  case (Bit0 n)
  have "bitlen (numeral (Num.Bit0 n)) = bitlen (numeral n) + 1"
    by (subst compute_bitlen) simp
  then show ?case by (simp add: Bit0 add_One_commute flip: add_One)
next
  case (Bit1 n)
  have "bitlen (numeral (Num.Bit1 n)) = bitlen (numeral n) + 1"
    by (subst compute_bitlen) simp
  then show ?case by (simp add: Bit1 add_One_commute flip: add_One)
qed

lemma round_nearest_even_shift:
  "round_nearest_even a (Suc k) =
     (let q2 = drop_bit k a; q = q2 div 2
      in if even q2 then q else if push_bit k q2 = a \<and> even q then q else q + 1)"
proof -
  define q2 where "q2 = a div 2 ^ k"
  define r2 where "r2 = a mod 2 ^ k"
  define q where "q = q2 div 2"
  have a: "a = q2 * 2 ^ k + r2"
    unfolding q2_def r2_def by (rule div_mult_mod_eq [symmetric])
  have r2: "0 \<le> r2" "r2 < 2 ^ k" by (simp_all add: r2_def)
  have push: "push_bit k q2 = a \<longleftrightarrow> r2 = 0"
    using a by (simp add: push_bit_eq_mult)
  have drop: "drop_bit k a = q2"
    by (simp add: q2_def drop_bit_eq_div)
  have q2: "q2 = q * 2 + q2 mod 2"
    unfolding q_def by (rule div_mult_mod_eq [symmetric])
  show ?thesis
  proof (cases "even q2")
    case True
    with q2 have "q2 = q * 2" by (simp add: even_iff_mod_2_eq_zero)
    with a have eq: "a = 2 ^ Suc k * q + r2" by (simp add: algebra_simps)
    have lt: "r2 < 2 ^ Suc k" using r2 by simp
    have "a div 2 ^ Suc k = q" "a mod 2 ^ Suc k = r2"
      using eq r2(1) lt by (rule int_div_pos_eq, rule int_mod_pos_eq)
    moreover have "2 * r2 < 2 ^ Suc k" using r2 by simp
    ultimately show ?thesis
      using True by (simp add: round_nearest_even_def Let_def drop q_def [symmetric])
  next
    case False
    with q2 have "q2 = q * 2 + 1" by (simp add: odd_iff_mod_2_eq_one)
    with a have eq: "a = 2 ^ Suc k * q + (2 ^ k + r2)" by (simp add: algebra_simps)
    have nn: "0 \<le> 2 ^ k + r2" using r2 by simp
    have lt: "2 ^ k + r2 < 2 ^ Suc k" using r2 by simp
    have dm: "a div 2 ^ Suc k = q" "a mod 2 ^ Suc k = 2 ^ k + r2"
      using eq nn lt by (rule int_div_pos_eq, rule int_mod_pos_eq)
    show ?thesis
    proof (cases "r2 = 0")
      case True
      then show ?thesis
        using False push dm
        by (simp add: round_nearest_even_def Let_def drop q_def [symmetric])
    next
      case nz: False
      then have "2 ^ Suc k < 2 * (2 ^ k + r2)" using r2 by simp
      then show ?thesis
        using False nz push dm
        by (simp add: round_nearest_even_def Let_def drop q_def [symmetric])
    qed
  qed
qed

lemma round_nearest_even_numeral:
  "round_nearest_even a (numeral k) =
     (let q2 = drop_bit (pred_numeral k) a; q = q2 div 2
      in if even q2 then q else if push_bit (pred_numeral k) q2 = a \<and> even q then q else q + 1)"
  unfolding numeral_eq_Suc by (rule round_nearest_even_shift)

lemma round_nearest_even_1:
  "round_nearest_even a 1 =
     (let q = a div 2 in if even a then q else if even q then q else q + 1)"
  using round_nearest_even_shift [of a 0] by (simp add: Let_def)

lemma round_magnitude_numeral:
  "round_magnitude (numeral a) E =
     (let e = max (E + numeral (num_len a) - 53) (- 1074)
      in if e \<le> E then (push_bit (nat (E - e)) (numeral a), e)
         else (let q = round_nearest_even (numeral a) (nat (e - E))
               in if q = 9007199254740992 then (4503599627370496, e + 1) else (q, e)))"
  by (simp add: round_magnitude_def bitlen_numeral push_bit_eq_mult Let_def)

lemma round_double_numeral:
  "round_double (numeral a) E =
     (case round_magnitude (numeral a) E of (q, e) \<Rightarrow> finite_or_overflow q e)"
  "round_double (- numeral a) E =
     (case round_magnitude (numeral a) E of (q, e) \<Rightarrow> finite_or_overflow (- q) e)"
  "round_double 0 E = Finite 0 (- 1074)"
  by (simp_all add: round_double_def)

lemma plus_double_aligned:
  "Finite m1 e1 + Finite m2 e2 =
     (if e1 \<le> e2 then round_double (m1 + push_bit (nat (e2 - e1)) m2) e1
      else round_double (push_bit (nat (e1 - e2)) m1 + m2) e2)"
  by (simp add: Let_def push_bit_eq_mult min_def)

lemma minus_double_aligned:
  "Finite m1 e1 - Finite m2 e2 =
     (if e1 \<le> e2 then round_double (m1 - push_bit (nat (e2 - e1)) m2) e1
      else round_double (push_bit (nat (e1 - e2)) m1 - m2) e2)"
  by (simp add: Let_def push_bit_eq_mult min_def)

lemma times_double_finite:
  "Finite m1 e1 * Finite m2 e2 = round_double (m1 * m2) (e1 + e2)"
  by simp

lemma push_bit_1_numeral:
  "push_bit 1 (numeral n :: int) = numeral (Num.Bit0 n)"
  "push_bit 1 (- numeral n :: int) = - numeral (Num.Bit0 n)"
  by (simp_all add: push_bit_eq_mult num_eq_iff nat_of_num_mult)

lemmas double_eval =
  plus_double_aligned minus_double_aligned times_double_finite
  round_double_numeral round_magnitude_numeral round_nearest_even_numeral round_nearest_even_1
  finite_or_overflow_def num_len.simps Num.inc.simps
  Let_def prod.case if_True if_False max_def
  nat_numeral nat_0 nat_one_as_int [symmetric]
  push_bit_numeral push_bit_minus_numeral push_bit_0_id id_apply push_bit_of_0 drop_bit_0
  drop_bit_numeral_bit0 drop_bit_numeral_bit1 pred_numeral_simps
  numeral_Bit0_div_2 numeral_Bit1_div_2 even_numeral odd_numeral
  push_bit_1_numeral arith_simps arith_special rel_simps
  mult_minus_left mult_minus_right minus_minus
  simp_thms

text \<open>
  Two checks of the arithmetic against Python: \<^verbatim>\<open>10 + 0.01 == 10.01\<close> (scene4.py builds
  its second start point as \<^verbatim>\<open>10 + 0.01\<close>), and \<^verbatim>\<open>0.1 + 0.2\<close>, which is
  \<^verbatim>\<open>0.30000000000000004\<close>, that is \<^verbatim>\<open>0x1.3333333333334p-2\<close>.
\<close>

lemma python_10_plus_0_01: "py_10 + py_0_01 = py_10_01"
  by (simp only: py_10_def py_0_01_def py_10_01_def double_eval cong: if_weak_cong let_weak_cong)

lemma double_0_1_plus_0_2:
  "Finite 7205759403792794 (- 56) + Finite 7205759403792794 (- 55) = Finite 5404319552844596 (- 54)"
  by (simp only: double_eval cong: if_weak_cong let_weak_cong)

subsection \<open>The two trajectories\<close>

text \<open>
  The trajectory from \<open>(10, 10, 10)\<close> and the one from \<open>(10.01, 10, 10)\<close>, with the default
  parameters: the state after every 50 steps, each block of 50 steps evaluated from the
  state before it.
\<close>

lemma funpow_numeral_apply: "(f ^^ numeral k) x = f ((f ^^ pred_numeral k) x)"
  by (simp add: numeral_eq_Suc)

lemma funpow_0_apply: "(f ^^ 0) x = x"
  by simp

lemma funpow_chain: "(f ^^ a) s = t \<Longrightarrow> (f ^^ b) t = u \<Longrightarrow> (f ^^ (b + a)) s = u"
  by (simp add: funpow_add)

lemma last_iterates: "0 < n \<Longrightarrow> last (iterates f n s) = (f ^^ n) s"
proof (induction n arbitrary: s)
  case 0
  then show ?case by simp
next
  case (Suc n)
  show ?case
  proof (cases n)
    case 0
    then show ?thesis by simp
  next
    case (Suc m)
    then have "iterates f n (f s) \<noteq> []" by simp
    then have "last (iterates f (Suc n) s) = last (iterates f n (f s))" by simp
    also have "\<dots> = (f ^^ n) (f s)" using Suc by (intro Suc.IH) simp
    finally show ?thesis by (simp add: funpow_swap1)
  qed
qed

lemma hd_iterates: "0 < n \<Longrightarrow> hd (iterates f n s) = f s"
  by (cases n) simp_all

lemma trajectory_P_first:
  "lorenz_step_double
     (Finite 5629499534213120 (- 49), Finite 5629499534213120 (- 49), Finite 5629499534213120 (- 49)) =
     (Finite 5629499534213120 (- 49), Finite 6586514455029350 (- 49), Finite 6042329500055416 (- 49))"
  by (simp only: lorenz_step_double_def py_10_def py_28_def py_8_div_3_def py_0_01_def
      explicit_euler_step_def double_eval cong: if_weak_cong let_weak_cong)

lemma trajectory_Q_first:
  "lorenz_step_double
     (Finite 5635129033747333 (- 49), Finite 5629499534213120 (- 49), Finite 5629499534213120 (- 49)) =
     (Finite 5634566083793912 (- 49), Finite 6587527764945509 (- 49), Finite 6042892450008837 (- 49))"
  by (simp only: lorenz_step_double_def py_10_def py_28_def py_8_div_3_def py_0_01_def
      explicit_euler_step_def double_eval cong: if_weak_cong let_weak_cong)

lemma trajectory_P_0050:
  "(lorenz_step_double ^^ 50)
     (Finite 5629499534213120 (- 49), Finite 5629499534213120 (- 49), Finite 5629499534213120 (- 49)) =
     (Finite (- 7643124986016791) (- 50), Finite (- 4922714526681619) (- 49), Finite 6721504826707502 (- 48))"
  by (simp only: lorenz_step_double_def py_10_def py_28_def py_8_div_3_def py_0_01_def
      funpow_numeral_apply funpow_0_apply explicit_euler_step_def double_eval
      cong: if_weak_cong let_weak_cong)

lemma trajectory_P_0100:
  "(lorenz_step_double ^^ 50)
     (Finite (- 7643124986016791) (- 50), Finite (- 4922714526681619) (- 49), Finite 6721504826707502 (- 48)) =
     (Finite (- 6770546678509476) (- 50), Finite (- 6061478239363852) (- 50), Finite 7051475432635471 (- 48))"
  by (simp only: lorenz_step_double_def py_10_def py_28_def py_8_div_3_def py_0_01_def
      funpow_numeral_apply funpow_0_apply explicit_euler_step_def double_eval
      cong: if_weak_cong let_weak_cong)

lemma trajectory_P_0150:
  "(lorenz_step_double ^^ 50)
     (Finite (- 6770546678509476) (- 50), Finite (- 6061478239363852) (- 50), Finite 7051475432635471 (- 48)) =
     (Finite (- 4650506543647639) (- 49), Finite (- 5090731693670638) (- 50), Finite 8732422727725627 (- 48))"
  by (simp only: lorenz_step_double_def py_10_def py_28_def py_8_div_3_def py_0_01_def
      funpow_numeral_apply funpow_0_apply explicit_euler_step_def double_eval
      cong: if_weak_cong let_weak_cong)

lemma trajectory_P_0200:
  "(lorenz_step_double ^^ 50)
     (Finite (- 4650506543647639) (- 49), Finite (- 5090731693670638) (- 50), Finite 8732422727725627 (- 48)) =
     (Finite (- 7122588112745786) (- 49), Finite (- 8063192565771553) (- 49), Finite 8624840962772928 (- 48))"
  by (simp only: lorenz_step_double_def py_10_def py_28_def py_8_div_3_def py_0_01_def
      funpow_numeral_apply funpow_0_apply explicit_euler_step_def double_eval
      cong: if_weak_cong let_weak_cong)

lemma trajectory_P_0250:
  "(lorenz_step_double ^^ 50)
     (Finite (- 7122588112745786) (- 49), Finite (- 8063192565771553) (- 49), Finite 8624840962772928 (- 48)) =
     (Finite (- 7926798611787098) (- 51), Finite (- 6412922165401067) (- 50), Finite 8184114385886685 (- 49))"
  by (simp only: lorenz_step_double_def py_10_def py_28_def py_8_div_3_def py_0_01_def
      funpow_numeral_apply funpow_0_apply explicit_euler_step_def double_eval
      cong: if_weak_cong let_weak_cong)

lemma trajectory_P_0300:
  "(lorenz_step_double ^^ 50)
     (Finite (- 7926798611787098) (- 51), Finite (- 6412922165401067) (- 50), Finite 8184114385886685 (- 49)) =
     (Finite 4621833320355256 (- 53), Finite 4540596454300496 (- 50), Finite 7103190920508557 (- 48))"
  by (simp only: lorenz_step_double_def py_10_def py_28_def py_8_div_3_def py_0_01_def
      funpow_numeral_apply funpow_0_apply explicit_euler_step_def double_eval
      cong: if_weak_cong let_weak_cong)

lemma trajectory_P_0350:
  "(lorenz_step_double ^^ 50)
     (Finite 4621833320355256 (- 53), Finite 4540596454300496 (- 50), Finite 7103190920508557 (- 48)) =
     (Finite 6865141804576508 (- 49), Finite 6460301265573374 (- 50), Finite 5322998918937708 (- 47))"
  by (simp only: lorenz_step_double_def py_10_def py_28_def py_8_div_3_def py_0_01_def
      funpow_numeral_apply funpow_0_apply explicit_euler_step_def double_eval
      cong: if_weak_cong let_weak_cong)

lemma trajectory_P_0400:
  "(lorenz_step_double ^^ 50)
     (Finite 6865141804576508 (- 49), Finite 6460301265573374 (- 50), Finite 5322998918937708 (- 47)) =
     (Finite (- 5241227230547056) (- 52), Finite (- 4767053106060048) (- 51), Finite 5794949103966315 (- 49))"
  by (simp only: lorenz_step_double_def py_10_def py_28_def py_8_div_3_def py_0_01_def
      funpow_numeral_apply funpow_0_apply explicit_euler_step_def double_eval
      cong: if_weak_cong let_weak_cong)

lemma trajectory_P_0450:
  "(lorenz_step_double ^^ 50)
     (Finite (- 5241227230547056) (- 52), Finite (- 4767053106060048) (- 51), Finite 5794949103966315 (- 49)) =
     (Finite (- 6363149627243300) (- 51), Finite 5369608294900778 (- 49), Finite 4812716080647066 (- 47))"
  by (simp only: lorenz_step_double_def py_10_def py_28_def py_8_div_3_def py_0_01_def
      funpow_numeral_apply funpow_0_apply explicit_euler_step_def double_eval
      cong: if_weak_cong let_weak_cong)

lemma trajectory_P_0500:
  "(lorenz_step_double ^^ 50)
     (Finite (- 6363149627243300) (- 51), Finite 5369608294900778 (- 49), Finite 4812716080647066 (- 47)) =
     (Finite 5111993809876706 (- 49), Finite 4661686928075482 (- 49), Finite 8090494777948487 (- 48))"
  by (simp only: lorenz_step_double_def py_10_def py_28_def py_8_div_3_def py_0_01_def
      funpow_numeral_apply funpow_0_apply explicit_euler_step_def double_eval
      cong: if_weak_cong let_weak_cong)

lemma trajectory_P_0550:
  "(lorenz_step_double ^^ 50)
     (Finite 5111993809876706 (- 49), Finite 4661686928075482 (- 49), Finite 8090494777948487 (- 48)) =
     (Finite 5437158900095937 (- 49), Finite 5774483353322061 (- 49), Finite 7800256889863231 (- 48))"
  by (simp only: lorenz_step_double_def py_10_def py_28_def py_8_div_3_def py_0_01_def
      funpow_numeral_apply funpow_0_apply explicit_euler_step_def double_eval
      cong: if_weak_cong let_weak_cong)

lemma trajectory_P_0600:
  "(lorenz_step_double ^^ 50)
     (Finite 5437158900095937 (- 49), Finite 5774483353322061 (- 49), Finite 7800256889863231 (- 48)) =
     (Finite 4597154719961610 (- 49), Finite 5536179025573330 (- 49), Finite 6803198932087085 (- 48))"
  by (simp only: lorenz_step_double_def py_10_def py_28_def py_8_div_3_def py_0_01_def
      funpow_numeral_apply funpow_0_apply explicit_euler_step_def double_eval
      cong: if_weak_cong let_weak_cong)

lemma trajectory_P_0650:
  "(lorenz_step_double ^^ 50)
     (Finite 4597154719961610 (- 49), Finite 5536179025573330 (- 49), Finite 6803198932087085 (- 48)) =
     (Finite 6808694392314101 (- 50), Finite 7316031857219153 (- 50), Finite 6584995505207809 (- 48))"
  by (simp only: lorenz_step_double_def py_10_def py_28_def py_8_div_3_def py_0_01_def
      funpow_numeral_apply funpow_0_apply explicit_euler_step_def double_eval
      cong: if_weak_cong let_weak_cong)

lemma trajectory_P_0700:
  "(lorenz_step_double ^^ 50)
     (Finite 6808694392314101 (- 50), Finite 7316031857219153 (- 50), Finite 6584995505207809 (- 48)) =
     (Finite 7107445285279273 (- 50), Finite 8353753530544070 (- 51), Finite 7859173791639343 (- 48))"
  by (simp only: lorenz_step_double_def py_10_def py_28_def py_8_div_3_def py_0_01_def
      funpow_numeral_apply funpow_0_apply explicit_euler_step_def double_eval
      cong: if_weak_cong let_weak_cong)

lemma trajectory_P_0750:
  "(lorenz_step_double ^^ 50)
     (Finite 7107445285279273 (- 50), Finite 8353753530544070 (- 51), Finite 7859173791639343 (- 48)) =
     (Finite 6880053592102712 (- 49), Finite 5191594235803267 (- 49), Finite 4914073972238813 (- 47))"
  by (simp only: lorenz_step_double_def py_10_def py_28_def py_8_div_3_def py_0_01_def
      funpow_numeral_apply funpow_0_apply explicit_euler_step_def double_eval
      cong: if_weak_cong let_weak_cong)

lemma trajectory_P_0800:
  "(lorenz_step_double ^^ 50)
     (Finite 6880053592102712 (- 49), Finite 5191594235803267 (- 49), Finite 4914073972238813 (- 47)) =
     (Finite 7168497911043312 (- 50), Finite 5943634855075138 (- 49), Finite 8655920649228579 (- 49))"
  by (simp only: lorenz_step_double_def py_10_def py_28_def py_8_div_3_def py_0_01_def
      funpow_numeral_apply funpow_0_apply explicit_euler_step_def double_eval
      cong: if_weak_cong let_weak_cong)

lemma trajectory_P_0850:
  "(lorenz_step_double ^^ 50)
     (Finite 7168497911043312 (- 50), Finite 5943634855075138 (- 49), Finite 8655920649228579 (- 49)) =
     (Finite (- 7837430045742458) (- 52), Finite (- 7314194598886028) (- 51), Finite 5635050540521739 (- 48))"
  by (simp only: lorenz_step_double_def py_10_def py_28_def py_8_div_3_def py_0_01_def
      funpow_numeral_apply funpow_0_apply explicit_euler_step_def double_eval
      cong: if_weak_cong let_weak_cong)

lemma trajectory_P_0900:
  "(lorenz_step_double ^^ 50)
     (Finite (- 7837430045742458) (- 52), Finite (- 7314194598886028) (- 51), Finite 5635050540521739 (- 48)) =
     (Finite (- 4710507189243907) (- 49), Finite 5263576651532896 (- 52), Finite 5065601625658675 (- 47))"
  by (simp only: lorenz_step_double_def py_10_def py_28_def py_8_div_3_def py_0_01_def
      funpow_numeral_apply funpow_0_apply explicit_euler_step_def double_eval
      cong: if_weak_cong let_weak_cong)

lemma trajectory_P_0950:
  "(lorenz_step_double ^^ 50)
     (Finite (- 4710507189243907) (- 49), Finite 5263576651532896 (- 52), Finite 5065601625658675 (- 47)) =
     (Finite 5991042674539554 (- 49), Finite 4705615369688992 (- 48), Finite 5809293613939677 (- 48))"
  by (simp only: lorenz_step_double_def py_10_def py_28_def py_8_div_3_def py_0_01_def
      funpow_numeral_apply funpow_0_apply explicit_euler_step_def double_eval
      cong: if_weak_cong let_weak_cong)

lemma trajectory_P_1000:
  "(lorenz_step_double ^^ 50)
     (Finite 5991042674539554 (- 49), Finite 4705615369688992 (- 48), Finite 5809293613939677 (- 48)) =
     (Finite (- 6977055598293801) (- 51), Finite (- 5538306784987561) (- 50), Finite 4710786177241786 (- 48))"
  by (simp only: lorenz_step_double_def py_10_def py_28_def py_8_div_3_def py_0_01_def
      funpow_numeral_apply funpow_0_apply explicit_euler_step_def double_eval
      cong: if_weak_cong let_weak_cong)

lemma trajectory_P_1050:
  "(lorenz_step_double ^^ 50)
     (Finite (- 6977055598293801) (- 51), Finite (- 5538306784987561) (- 50), Finite 4710786177241786 (- 48)) =
     (Finite (- 8226533902979860) (- 52), Finite 6769360007839223 (- 51), Finite 7752926045746881 (- 48))"
  by (simp only: lorenz_step_double_def py_10_def py_28_def py_8_div_3_def py_0_01_def
      funpow_numeral_apply funpow_0_apply explicit_euler_step_def double_eval
      cong: if_weak_cong let_weak_cong)

lemma trajectory_P_1100:
  "(lorenz_step_double ^^ 50)
     (Finite (- 8226533902979860) (- 52), Finite 6769360007839223 (- 51), Finite 7752926045746881 (- 48)) =
     (Finite 8412203402994032 (- 49), Finite 4946604882440208 (- 48), Finite 4672133810116508 (- 47))"
  by (simp only: lorenz_step_double_def py_10_def py_28_def py_8_div_3_def py_0_01_def
      funpow_numeral_apply funpow_0_apply explicit_euler_step_def double_eval
      cong: if_weak_cong let_weak_cong)

lemma trajectory_P_1150:
  "(lorenz_step_double ^^ 50)
     (Finite 8412203402994032 (- 49), Finite 4946604882440208 (- 48), Finite 4672133810116508 (- 47)) =
     (Finite (- 6260829593457698) (- 50), Finite (- 5057376713705615) (- 49), Finite 4513029387065447 (- 48))"
  by (simp only: lorenz_step_double_def py_10_def py_28_def py_8_div_3_def py_0_01_def
      funpow_numeral_apply funpow_0_apply explicit_euler_step_def double_eval
      cong: if_weak_cong let_weak_cong)

lemma trajectory_P_1200:
  "(lorenz_step_double ^^ 50)
     (Finite (- 6260829593457698) (- 50), Finite (- 5057376713705615) (- 49), Finite 4513029387065447 (- 48)) =
     (Finite 8190608242225685 (- 54), Finite 8943244443989970 (- 52), Finite 5972136011924390 (- 48))"
  by (simp only: lorenz_step_double_def py_10_def py_28_def py_8_div_3_def py_0_01_def
      funpow_numeral_apply funpow_0_apply explicit_euler_step_def double_eval
      cong: if_weak_cong let_weak_cong)

lemma trajectory_P_1250:
  "(lorenz_step_double ^^ 50)
     (Finite 8190608242225685 (- 54), Finite 8943244443989970 (- 52), Finite 5972136011924390 (- 48)) =
     (Finite 8932966140618697 (- 49), Finite 6253351622854573 (- 49), Finite 5845230277588653 (- 47))"
  by (simp only: lorenz_step_double_def py_10_def py_28_def py_8_div_3_def py_0_01_def
      funpow_numeral_apply funpow_0_apply explicit_euler_step_def double_eval
      cong: if_weak_cong let_weak_cong)

lemma trajectory_P_1300:
  "(lorenz_step_double ^^ 50)
     (Finite 8932966140618697 (- 49), Finite 6253351622854573 (- 49), Finite 5845230277588653 (- 47)) =
     (Finite (- 5588266733136630) (- 49), Finite (- 7884511120515880) (- 49), Finite 6474462559969682 (- 48))"
  by (simp only: lorenz_step_double_def py_10_def py_28_def py_8_div_3_def py_0_01_def
      funpow_numeral_apply funpow_0_apply explicit_euler_step_def double_eval
      cong: if_weak_cong let_weak_cong)

lemma trajectory_P_1350:
  "(lorenz_step_double ^^ 50)
     (Finite (- 5588266733136630) (- 49), Finite (- 7884511120515880) (- 49), Finite 6474462559969682 (- 48)) =
     (Finite (- 5271780932485789) (- 51), Finite (- 7240561676978663) (- 51), Finite 4759066864843207 (- 48))"
  by (simp only: lorenz_step_double_def py_10_def py_28_def py_8_div_3_def py_0_01_def
      funpow_numeral_apply funpow_0_apply explicit_euler_step_def double_eval
      cong: if_weak_cong let_weak_cong)

lemma trajectory_P_1400:
  "(lorenz_step_double ^^ 50)
     (Finite (- 5271780932485789) (- 51), Finite (- 7240561676978663) (- 51), Finite 4759066864843207 (- 48)) =
     (Finite (- 4972426844425676) (- 50), Finite 4592723983950779 (- 50), Finite 4533691600324320 (- 47))"
  by (simp only: lorenz_step_double_def py_10_def py_28_def py_8_div_3_def py_0_01_def
      funpow_numeral_apply funpow_0_apply explicit_euler_step_def double_eval
      cong: if_weak_cong let_weak_cong)

lemma trajectory_P_1450:
  "(lorenz_step_double ^^ 50)
     (Finite (- 4972426844425676) (- 50), Finite 4592723983950779 (- 50), Finite 4533691600324320 (- 47)) =
     (Finite 7782482558826556 (- 49), Finite 8559546152298023 (- 49), Finite 4613405532999246 (- 47))"
  by (simp only: lorenz_step_double_def py_10_def py_28_def py_8_div_3_def py_0_01_def
      funpow_numeral_apply funpow_0_apply explicit_euler_step_def double_eval
      cong: if_weak_cong let_weak_cong)

lemma trajectory_P_1500:
  "(lorenz_step_double ^^ 50)
     (Finite 7782482558826556 (- 49), Finite 8559546152298023 (- 49), Finite 4613405532999246 (- 47)) =
     (Finite (- 4832776860437781) (- 54), Finite (- 4541765231716816) (- 53), Finite 7094269301567977 (- 49))"
  by (simp only: lorenz_step_double_def py_10_def py_28_def py_8_div_3_def py_0_01_def
      funpow_numeral_apply funpow_0_apply explicit_euler_step_def double_eval
      cong: if_weak_cong let_weak_cong)

lemma trajectory_P_1550:
  "(lorenz_step_double ^^ 50)
     (Finite (- 4832776860437781) (- 54), Finite (- 4541765231716816) (- 53), Finite 7094269301567977 (- 49)) =
     (Finite (- 4996147619535281) (- 48), Finite (- 6766461031276352) (- 48), Finite 4813378355225615 (- 47))"
  by (simp only: lorenz_step_double_def py_10_def py_28_def py_8_div_3_def py_0_01_def
      funpow_numeral_apply funpow_0_apply explicit_euler_step_def double_eval
      cong: if_weak_cong let_weak_cong)

lemma trajectory_P_1600:
  "(lorenz_step_double ^^ 50)
     (Finite (- 4996147619535281) (- 48), Finite (- 6766461031276352) (- 48), Finite 4813378355225615 (- 47)) =
     (Finite 4632024640886494 (- 49), Finite 4537489255390348 (- 49), Finite 7654357501945824 (- 48))"
  by (simp only: lorenz_step_double_def py_10_def py_28_def py_8_div_3_def py_0_01_def
      funpow_numeral_apply funpow_0_apply explicit_euler_step_def double_eval
      cong: if_weak_cong let_weak_cong)

lemma trajectory_P_1650:
  "(lorenz_step_double ^^ 50)
     (Finite 4632024640886494 (- 49), Finite 4537489255390348 (- 49), Finite 7654357501945824 (- 48)) =
     (Finite 4926921602961459 (- 49), Finite 4722530984112620 (- 49), Finite 7822773828897049 (- 48))"
  by (simp only: lorenz_step_double_def py_10_def py_28_def py_8_div_3_def py_0_01_def
      funpow_numeral_apply funpow_0_apply explicit_euler_step_def double_eval
      cong: if_weak_cong let_weak_cong)

lemma trajectory_P_1700:
  "(lorenz_step_double ^^ 50)
     (Finite 4926921602961459 (- 49), Finite 4722530984112620 (- 49), Finite 7822773828897049 (- 48)) =
     (Finite 5091685927543006 (- 49), Finite 5210675347774672 (- 49), Finite 7718107884887720 (- 48))"
  by (simp only: lorenz_step_double_def py_10_def py_28_def py_8_div_3_def py_0_01_def
      funpow_numeral_apply funpow_0_apply explicit_euler_step_def double_eval
      cong: if_weak_cong let_weak_cong)

lemma trajectory_P_1750:
  "(lorenz_step_double ^^ 50)
     (Finite 5091685927543006 (- 49), Finite 5210675347774672 (- 49), Finite 7718107884887720 (- 48)) =
     (Finite 4768951864271800 (- 49), Finite 5222812324409960 (- 49), Finite 7284108567146672 (- 48))"
  by (simp only: lorenz_step_double_def py_10_def py_28_def py_8_div_3_def py_0_01_def
      funpow_numeral_apply funpow_0_apply explicit_euler_step_def double_eval
      cong: if_weak_cong let_weak_cong)

lemma trajectory_P_1800:
  "(lorenz_step_double ^^ 50)
     (Finite 4768951864271800 (- 49), Finite 5222812324409960 (- 49), Finite 7284108567146672 (- 48)) =
     (Finite 8389192210082935 (- 50), Finite 8813495697319106 (- 50), Finite 7096684735575726 (- 48))"
  by (simp only: lorenz_step_double_def py_10_def py_28_def py_8_div_3_def py_0_01_def
      funpow_numeral_apply funpow_0_apply explicit_euler_step_def double_eval
      cong: if_weak_cong let_weak_cong)

lemma trajectory_P_1850:
  "(lorenz_step_double ^^ 50)
     (Finite 8389192210082935 (- 50), Finite 8813495697319106 (- 50), Finite 7096684735575726 (- 48)) =
     (Finite 8299474869120311 (- 50), Finite 7138960241563541 (- 50), Finite 7614549006089848 (- 48))"
  by (simp only: lorenz_step_double_def py_10_def py_28_def py_8_div_3_def py_0_01_def
      funpow_numeral_apply funpow_0_apply explicit_euler_step_def double_eval
      cong: if_weak_cong let_weak_cong)

lemma trajectory_P_1900:
  "(lorenz_step_double ^^ 50)
     (Finite 8299474869120311 (- 50), Finite 7138960241563541 (- 50), Finite 7614549006089848 (- 48)) =
     (Finite 5268112708258126 (- 49), Finite 8240838716047156 (- 50), Finite 8570906897661116 (- 48))"
  by (simp only: lorenz_step_double_def py_10_def py_28_def py_8_div_3_def py_0_01_def
      funpow_numeral_apply funpow_0_apply explicit_euler_step_def double_eval
      cong: if_weak_cong let_weak_cong)

lemma trajectory_P_1950:
  "(lorenz_step_double ^^ 50)
     (Finite 5268112708258126 (- 49), Finite 8240838716047156 (- 50), Finite 8570906897661116 (- 48)) =
     (Finite 6147157008006853 (- 49), Finite 6863511557497977 (- 49), Finite 8045126410742022 (- 48))"
  by (simp only: lorenz_step_double_def py_10_def py_28_def py_8_div_3_def py_0_01_def
      funpow_numeral_apply funpow_0_apply explicit_euler_step_def double_eval
      cong: if_weak_cong let_weak_cong)

lemma trajectory_P_2000:
  "(lorenz_step_double ^^ 50)
     (Finite 6147157008006853 (- 49), Finite 6863511557497977 (- 49), Finite 8045126410742022 (- 48)) =
     (Finite 7879761225091429 (- 50), Finite 5549176058373353 (- 49), Finite 5681090214007120 (- 48))"
  by (simp only: lorenz_step_double_def py_10_def py_28_def py_8_div_3_def py_0_01_def
      funpow_numeral_apply funpow_0_apply explicit_euler_step_def double_eval
      cong: if_weak_cong let_weak_cong)

lemma trajectory_Q_0050:
  "(lorenz_step_double ^^ 50)
     (Finite 5635129033747333 (- 49), Finite 5629499534213120 (- 49), Finite 5629499534213120 (- 49)) =
     (Finite (- 7645144043969723) (- 50), Finite (- 4923633807843378) (- 49), Finite 6721626673122395 (- 48))"
  by (simp only: lorenz_step_double_def py_10_def py_28_def py_8_div_3_def py_0_01_def
      funpow_numeral_apply funpow_0_apply explicit_euler_step_def double_eval
      cong: if_weak_cong let_weak_cong)

lemma trajectory_Q_0100:
  "(lorenz_step_double ^^ 50)
     (Finite (- 7645144043969723) (- 50), Finite (- 4923633807843378) (- 49), Finite 6721626673122395 (- 48)) =
     (Finite (- 6770612295164847) (- 50), Finite (- 6063419662841740) (- 50), Finite 7050805145509428 (- 48))"
  by (simp only: lorenz_step_double_def py_10_def py_28_def py_8_div_3_def py_0_01_def
      funpow_numeral_apply funpow_0_apply explicit_euler_step_def double_eval
      cong: if_weak_cong let_weak_cong)

lemma trajectory_Q_0150:
  "(lorenz_step_double ^^ 50)
     (Finite (- 6770612295164847) (- 50), Finite (- 6063419662841740) (- 50), Finite 7050805145509428 (- 48)) =
     (Finite (- 4648700972192884) (- 49), Finite (- 5088845646339563) (- 50), Finite 8731078021710924 (- 48))"
  by (simp only: lorenz_step_double_def py_10_def py_28_def py_8_div_3_def py_0_01_def
      funpow_numeral_apply funpow_0_apply explicit_euler_step_def double_eval
      cong: if_weak_cong let_weak_cong)

lemma trajectory_Q_0200:
  "(lorenz_step_double ^^ 50)
     (Finite (- 4648700972192884) (- 49), Finite (- 5088845646339563) (- 50), Finite 8731078021710924 (- 48)) =
     (Finite (- 7123256297400661) (- 49), Finite (- 8059519867062136) (- 49), Finite 8627911600595390 (- 48))"
  by (simp only: lorenz_step_double_def py_10_def py_28_def py_8_div_3_def py_0_01_def
      funpow_numeral_apply funpow_0_apply explicit_euler_step_def double_eval
      cong: if_weak_cong let_weak_cong)

lemma trajectory_Q_0250:
  "(lorenz_step_double ^^ 50)
     (Finite (- 7123256297400661) (- 49), Finite (- 8059519867062136) (- 49), Finite 8627911600595390 (- 48)) =
     (Finite (- 7940839603774089) (- 51), Finite (- 6424788005575130) (- 50), Finite 8184662518889066 (- 49))"
  by (simp only: lorenz_step_double_def py_10_def py_28_def py_8_div_3_def py_0_01_def
      funpow_numeral_apply funpow_0_apply explicit_euler_step_def double_eval
      cong: if_weak_cong let_weak_cong)

lemma trajectory_Q_0300:
  "(lorenz_step_double ^^ 50)
     (Finite (- 7940839603774089) (- 51), Finite (- 6424788005575130) (- 50), Finite 8184662518889066 (- 49)) =
     (Finite 4664160327815994 (- 53), Finite 4534005976688163 (- 50), Finite 7098463401575481 (- 48))"
  by (simp only: lorenz_step_double_def py_10_def py_28_def py_8_div_3_def py_0_01_def
      funpow_numeral_apply funpow_0_apply explicit_euler_step_def double_eval
      cong: if_weak_cong let_weak_cong)

lemma trajectory_Q_0350:
  "(lorenz_step_double ^^ 50)
     (Finite 4664160327815994 (- 53), Finite 4534005976688163 (- 50), Finite 7098463401575481 (- 48)) =
     (Finite 6864702593475425 (- 49), Finite 6445522069615750 (- 50), Finite 5324220996483869 (- 47))"
  by (simp only: lorenz_step_double_def py_10_def py_28_def py_8_div_3_def py_0_01_def
      funpow_numeral_apply funpow_0_apply explicit_euler_step_def double_eval
      cong: if_weak_cong let_weak_cong)

lemma trajectory_Q_0400:
  "(lorenz_step_double ^^ 50)
     (Finite 6864702593475425 (- 49), Finite 6445522069615750 (- 50), Finite 5324220996483869 (- 47)) =
     (Finite (- 5415999512914153) (- 52), Finite (- 4924994310508892) (- 51), Finite 5798705095772780 (- 49))"
  by (simp only: lorenz_step_double_def py_10_def py_28_def py_8_div_3_def py_0_01_def
      funpow_numeral_apply funpow_0_apply explicit_euler_step_def double_eval
      cong: if_weak_cong let_weak_cong)

lemma trajectory_Q_0450:
  "(lorenz_step_double ^^ 50)
     (Finite (- 5415999512914153) (- 52), Finite (- 4924994310508892) (- 51), Finite 5798705095772780 (- 49)) =
     (Finite (- 5482812483081491) (- 51), Finite 5352845600706576 (- 49), Finite 4753324246644638 (- 47))"
  by (simp only: lorenz_step_double_def py_10_def py_28_def py_8_div_3_def py_0_01_def
      funpow_numeral_apply funpow_0_apply explicit_euler_step_def double_eval
      cong: if_weak_cong let_weak_cong)

lemma trajectory_Q_0500:
  "(lorenz_step_double ^^ 50)
     (Finite (- 5482812483081491) (- 51), Finite 5352845600706576 (- 49), Finite 4753324246644638 (- 47)) =
     (Finite 5121352428233143 (- 49), Finite 4630967854304609 (- 49), Finite 8119583699041688 (- 48))"
  by (simp only: lorenz_step_double_def py_10_def py_28_def py_8_div_3_def py_0_01_def
      funpow_numeral_apply funpow_0_apply explicit_euler_step_def double_eval
      cong: if_weak_cong let_weak_cong)

lemma trajectory_Q_0550:
  "(lorenz_step_double ^^ 50)
     (Finite 5121352428233143 (- 49), Finite 4630967854304609 (- 49), Finite 8119583699041688 (- 48)) =
     (Finite 5483122344283084 (- 49), Finite 5830029195885074 (- 49), Finite 7824504836425677 (- 48))"
  by (simp only: lorenz_step_double_def py_10_def py_28_def py_8_div_3_def py_0_01_def
      funpow_numeral_apply funpow_0_apply explicit_euler_step_def double_eval
      cong: if_weak_cong let_weak_cong)

lemma trajectory_Q_0600:
  "(lorenz_step_double ^^ 50)
     (Finite 5483122344283084 (- 49), Finite 5830029195885074 (- 49), Finite 7824504836425677 (- 48)) =
     (Finite 4590761524428401 (- 49), Finite 5585396916938836 (- 49), Finite 6754042752367336 (- 48))"
  by (simp only: lorenz_step_double_def py_10_def py_28_def py_8_div_3_def py_0_01_def
      funpow_numeral_apply funpow_0_apply explicit_euler_step_def double_eval
      cong: if_weak_cong let_weak_cong)

lemma trajectory_Q_0650:
  "(lorenz_step_double ^^ 50)
     (Finite 4590761524428401 (- 49), Finite 5585396916938836 (- 49), Finite 6754042752367336 (- 48)) =
     (Finite 6630957297026949 (- 50), Finite 7166082726320648 (- 50), Finite 6519407583163345 (- 48))"
  by (simp only: lorenz_step_double_def py_10_def py_28_def py_8_div_3_def py_0_01_def
      funpow_numeral_apply funpow_0_apply explicit_euler_step_def double_eval
      cong: if_weak_cong let_weak_cong)

lemma trajectory_Q_0700:
  "(lorenz_step_double ^^ 50)
     (Finite 6630957297026949 (- 50), Finite 7166082726320648 (- 50), Finite 6519407583163345 (- 48)) =
     (Finite 6947494464602335 (- 50), Finite 7659780010409616 (- 51), Finite 7877502309118661 (- 48))"
  by (simp only: lorenz_step_double_def py_10_def py_28_def py_8_div_3_def py_0_01_def
      funpow_numeral_apply funpow_0_apply explicit_euler_step_def double_eval
      cong: if_weak_cong let_weak_cong)

lemma trajectory_Q_0750:
  "(lorenz_step_double ^^ 50)
     (Finite 6947494464602335 (- 50), Finite 7659780010409616 (- 51), Finite 7877502309118661 (- 48)) =
     (Finite 7115764248993195 (- 49), Finite 5552655879831857 (- 49), Finite 4962934484556072 (- 47))"
  by (simp only: lorenz_step_double_def py_10_def py_28_def py_8_div_3_def py_0_01_def
      funpow_numeral_apply funpow_0_apply explicit_euler_step_def double_eval
      cong: if_weak_cong let_weak_cong)

lemma trajectory_Q_0800:
  "(lorenz_step_double ^^ 50)
     (Finite 7115764248993195 (- 49), Finite 5552655879831857 (- 49), Finite 4962934484556072 (- 47)) =
     (Finite 5557439657325252 (- 50), Finite 4718591975940032 (- 49), Finite 7747149406341908 (- 49))"
  by (simp only: lorenz_step_double_def py_10_def py_28_def py_8_div_3_def py_0_01_def
      funpow_numeral_apply funpow_0_apply explicit_euler_step_def double_eval
      cong: if_weak_cong let_weak_cong)

lemma trajectory_Q_0850:
  "(lorenz_step_double ^^ 50)
     (Finite 5557439657325252 (- 50), Finite 4718591975940032 (- 49), Finite 7747149406341908 (- 49)) =
     (Finite (- 5015979276806669) (- 51), Finite (- 4869740654719856) (- 50), Finite 6218785104936558 (- 48))"
  by (simp only: lorenz_step_double_def py_10_def py_28_def py_8_div_3_def py_0_01_def
      funpow_numeral_apply funpow_0_apply explicit_euler_step_def double_eval
      cong: if_weak_cong let_weak_cong)

lemma trajectory_Q_0900:
  "(lorenz_step_double ^^ 50)
     (Finite (- 5015979276806669) (- 51), Finite (- 4869740654719856) (- 50), Finite 6218785104936558 (- 48)) =
     (Finite (- 8710380817110611) (- 50), Finite (- 7991820707827748) (- 54), Finite 4745087397741810 (- 47))"
  by (simp only: lorenz_step_double_def py_10_def py_28_def py_8_div_3_def py_0_01_def
      funpow_numeral_apply funpow_0_apply explicit_euler_step_def double_eval
      cong: if_weak_cong let_weak_cong)

lemma trajectory_Q_0950:
  "(lorenz_step_double ^^ 50)
     (Finite (- 8710380817110611) (- 50), Finite (- 7991820707827748) (- 54), Finite 4745087397741810 (- 47)) =
     (Finite (- 7543855869052022) (- 54), Finite (- 7059973198016784) (- 53), Finite 4867918892056483 (- 49))"
  by (simp only: lorenz_step_double_def py_10_def py_28_def py_8_div_3_def py_0_01_def
      funpow_numeral_apply funpow_0_apply explicit_euler_step_def double_eval
      cong: if_weak_cong let_weak_cong)

lemma trajectory_Q_1000:
  "(lorenz_step_double ^^ 50)
     (Finite (- 7543855869052022) (- 54), Finite (- 7059973198016784) (- 53), Finite 4867918892056483 (- 49)) =
     (Finite (- 4733119084516676) (- 48), Finite (- 5819102248786619) (- 51), Finite 6931323540324869 (- 47))"
  by (simp only: lorenz_step_double_def py_10_def py_28_def py_8_div_3_def py_0_01_def
      funpow_numeral_apply funpow_0_apply explicit_euler_step_def double_eval
      cong: if_weak_cong let_weak_cong)

lemma trajectory_Q_1050:
  "(lorenz_step_double ^^ 50)
     (Finite (- 4733119084516676) (- 48), Finite (- 5819102248786619) (- 51), Finite 6931323540324869 (- 47)) =
     (Finite 8215316548917258 (- 50), Finite 8204073358999197 (- 50), Finite 7234475438197131 (- 48))"
  by (simp only: lorenz_step_double_def py_10_def py_28_def py_8_div_3_def py_0_01_def
      funpow_numeral_apply funpow_0_apply explicit_euler_step_def double_eval
      cong: if_weak_cong let_weak_cong)

lemma trajectory_Q_1100:
  "(lorenz_step_double ^^ 50)
     (Finite 8215316548917258 (- 50), Finite 8204073358999197 (- 50), Finite 7234475438197131 (- 48)) =
     (Finite 8901409303793993 (- 50), Finite 7215823434752822 (- 50), Finite 7940751961354443 (- 48))"
  by (simp only: lorenz_step_double_def py_10_def py_28_def py_8_div_3_def py_0_01_def
      funpow_numeral_apply funpow_0_apply explicit_euler_step_def double_eval
      cong: if_weak_cong let_weak_cong)

lemma trajectory_Q_1150:
  "(lorenz_step_double ^^ 50)
     (Finite 8901409303793993 (- 50), Finite 7215823434752822 (- 50), Finite 7940751961354443 (- 48)) =
     (Finite 5738926462678482 (- 49), Finite 4984598307445292 (- 49), Finite 8638770759806474 (- 48))"
  by (simp only: lorenz_step_double_def py_10_def py_28_def py_8_div_3_def py_0_01_def
      funpow_numeral_apply funpow_0_apply explicit_euler_step_def double_eval
      cong: if_weak_cong let_weak_cong)

lemma trajectory_Q_1200:
  "(lorenz_step_double ^^ 50)
     (Finite 5738926462678482 (- 49), Finite 4984598307445292 (- 49), Finite 8638770759806474 (- 48)) =
     (Finite 5665206197735988 (- 49), Finite 7038105807955146 (- 49), Finite 7247536389323595 (- 48))"
  by (simp only: lorenz_step_double_def py_10_def py_28_def py_8_div_3_def py_0_01_def
      funpow_numeral_apply funpow_0_apply explicit_euler_step_def double_eval
      cong: if_weak_cong let_weak_cong)

lemma trajectory_Q_1250:
  "(lorenz_step_double ^^ 50)
     (Finite 5665206197735988 (- 49), Finite 7038105807955146 (- 49), Finite 7247536389323595 (- 48)) =
     (Finite 6295561094350313 (- 50), Finite 8563641870271752 (- 50), Finite 5537872493685629 (- 48))"
  by (simp only: lorenz_step_double_def py_10_def py_28_def py_8_div_3_def py_0_01_def
      funpow_numeral_apply funpow_0_apply explicit_euler_step_def double_eval
      cong: if_weak_cong let_weak_cong)

lemma trajectory_Q_1300:
  "(lorenz_step_double ^^ 50)
     (Finite 6295561094350313 (- 50), Finite 8563641870271752 (- 50), Finite 5537872493685629 (- 48)) =
     (Finite 6765079758578150 (- 51), Finite 6002201721418386 (- 52), Finite 6727827365290902 (- 48))"
  by (simp only: lorenz_step_double_def py_10_def py_28_def py_8_div_3_def py_0_01_def
      funpow_numeral_apply funpow_0_apply explicit_euler_step_def double_eval
      cong: if_weak_cong let_weak_cong)

lemma trajectory_Q_1350:
  "(lorenz_step_double ^^ 50)
     (Finite 6765079758578150 (- 51), Finite 6002201721418386 (- 52), Finite 6727827365290902 (- 48)) =
     (Finite 8550132593660041 (- 49), Finite 6633812587756362 (- 49), Finite 5546751182321528 (- 47))"
  by (simp only: lorenz_step_double_def py_10_def py_28_def py_8_div_3_def py_0_01_def
      funpow_numeral_apply funpow_0_apply explicit_euler_step_def double_eval
      cong: if_weak_cong let_weak_cong)

lemma trajectory_Q_1400:
  "(lorenz_step_double ^^ 50)
     (Finite 8550132593660041 (- 49), Finite 6633812587756362 (- 49), Finite 5546751182321528 (- 47)) =
     (Finite (- 8305570536257262) (- 50), Finite (- 6688813484764749) (- 49), Finite 4821357516654604 (- 48))"
  by (simp only: lorenz_step_double_def py_10_def py_28_def py_8_div_3_def py_0_01_def
      funpow_numeral_apply funpow_0_apply explicit_euler_step_def double_eval
      cong: if_weak_cong let_weak_cong)

lemma trajectory_Q_1450:
  "(lorenz_step_double ^^ 50)
     (Finite (- 8305570536257262) (- 50), Finite (- 6688813484764749) (- 49), Finite 4821357516654604 (- 48)) =
     (Finite 7959445528765473 (- 53), Finite 8573753428450209 (- 52), Finite 5276623080947468 (- 48))"
  by (simp only: lorenz_step_double_def py_10_def py_28_def py_8_div_3_def py_0_01_def
      funpow_numeral_apply funpow_0_apply explicit_euler_step_def double_eval
      cong: if_weak_cong let_weak_cong)

lemma trajectory_Q_1500:
  "(lorenz_step_double ^^ 50)
     (Finite 7959445528765473 (- 53), Finite 8573753428450209 (- 52), Finite 5276623080947468 (- 48)) =
     (Finite 7849941276175423 (- 49), Finite 8507492874291237 (- 51), Finite 6011277740238153 (- 47))"
  by (simp only: lorenz_step_double_def py_10_def py_28_def py_8_div_3_def py_0_01_def
      funpow_numeral_apply funpow_0_apply explicit_euler_step_def double_eval
      cong: if_weak_cong let_weak_cong)

lemma trajectory_Q_1550:
  "(lorenz_step_double ^^ 50)
     (Finite 7849941276175423 (- 49), Finite 8507492874291237 (- 51), Finite 6011277740238153 (- 47)) =
     (Finite (- 6381987973146414) (- 49), Finite (- 8069879258244981) (- 49), Finite 7588089958734164 (- 48))"
  by (simp only: lorenz_step_double_def py_10_def py_28_def py_8_div_3_def py_0_01_def
      funpow_numeral_apply funpow_0_apply explicit_euler_step_def double_eval
      cong: if_weak_cong let_weak_cong)

lemma trajectory_Q_1600:
  "(lorenz_step_double ^^ 50)
     (Finite (- 6381987973146414) (- 49), Finite (- 8069879258244981) (- 49), Finite 7588089958734164 (- 48)) =
     (Finite (- 8845851639267125) (- 51), Finite (- 6681628130501176) (- 50), Finite 4619547409894224 (- 48))"
  by (simp only: lorenz_step_double_def py_10_def py_28_def py_8_div_3_def py_0_01_def
      funpow_numeral_apply funpow_0_apply explicit_euler_step_def double_eval
      cong: if_weak_cong let_weak_cong)

lemma trajectory_Q_1650:
  "(lorenz_step_double ^^ 50)
     (Finite (- 8845851639267125) (- 51), Finite (- 6681628130501176) (- 50), Finite 4619547409894224 (- 48)) =
     (Finite (- 7928788113289825) (- 53), Finite 5414148520837536 (- 51), Finite 7099080394518088 (- 48))"
  by (simp only: lorenz_step_double_def py_10_def py_28_def py_8_div_3_def py_0_01_def
      funpow_numeral_apply funpow_0_apply explicit_euler_step_def double_eval
      cong: if_weak_cong let_weak_cong)

lemma trajectory_Q_1700:
  "(lorenz_step_double ^^ 50)
     (Finite (- 7928788113289825) (- 53), Finite 5414148520837536 (- 51), Finite 7099080394518088 (- 48)) =
     (Finite 8726781293403844 (- 49), Finite 5169443667625708 (- 48), Finite 4768820402228038 (- 47))"
  by (simp only: lorenz_step_double_def py_10_def py_28_def py_8_div_3_def py_0_01_def
      funpow_numeral_apply funpow_0_apply explicit_euler_step_def double_eval
      cong: if_weak_cong let_weak_cong)

lemma trajectory_Q_1750:
  "(lorenz_step_double ^^ 50)
     (Finite 8726781293403844 (- 49), Finite 5169443667625708 (- 48), Finite 4768820402228038 (- 47)) =
     (Finite (- 8311027649813809) (- 50), Finite (- 6334841836890373) (- 49), Finite 5309817066562850 (- 48))"
  by (simp only: lorenz_step_double_def py_10_def py_28_def py_8_div_3_def py_0_01_def
      funpow_numeral_apply funpow_0_apply explicit_euler_step_def double_eval
      cong: if_weak_cong let_weak_cong)

lemma trajectory_Q_1800:
  "(lorenz_step_double ^^ 50)
     (Finite (- 8311027649813809) (- 50), Finite (- 6334841836890373) (- 49), Finite 5309817066562850 (- 48)) =
     (Finite (- 4998800985388006) (- 52), Finite (- 6755624932985395) (- 53), Finite 5406552910525348 (- 48))"
  by (simp only: lorenz_step_double_def py_10_def py_28_def py_8_div_3_def py_0_01_def
      funpow_numeral_apply funpow_0_apply explicit_euler_step_def double_eval
      cong: if_weak_cong let_weak_cong)

lemma trajectory_Q_1850:
  "(lorenz_step_double ^^ 50)
     (Finite (- 4998800985388006) (- 52), Finite (- 6755624932985395) (- 53), Finite 5406552910525348 (- 48)) =
     (Finite (- 4831236364894674) (- 48), Finite (- 5033369919725971) (- 48), Finite 5474193837344267 (- 47))"
  by (simp only: lorenz_step_double_def py_10_def py_28_def py_8_div_3_def py_0_01_def
      funpow_numeral_apply funpow_0_apply explicit_euler_step_def double_eval
      cong: if_weak_cong let_weak_cong)

lemma trajectory_Q_1900:
  "(lorenz_step_double ^^ 50)
     (Finite (- 4831236364894674) (- 48), Finite (- 5033369919725971) (- 48), Finite 5474193837344267 (- 47)) =
     (Finite 5500452718193280 (- 49), Finite 6882541133831731 (- 49), Finite 7160713398580821 (- 48))"
  by (simp only: lorenz_step_double_def py_10_def py_28_def py_8_div_3_def py_0_01_def
      funpow_numeral_apply funpow_0_apply explicit_euler_step_def double_eval
      cong: if_weak_cong let_weak_cong)

lemma trajectory_Q_1950:
  "(lorenz_step_double ^^ 50)
     (Finite 5500452718193280 (- 49), Finite 6882541133831731 (- 49), Finite 7160713398580821 (- 48)) =
     (Finite 6358739144478019 (- 50), Finite 8454538621465186 (- 50), Finite 5662687464654045 (- 48))"
  by (simp only: lorenz_step_double_def py_10_def py_28_def py_8_div_3_def py_0_01_def
      funpow_numeral_apply funpow_0_apply explicit_euler_step_def double_eval
      cong: if_weak_cong let_weak_cong)

lemma trajectory_Q_2000:
  "(lorenz_step_double ^^ 50)
     (Finite 6358739144478019 (- 50), Finite 8454538621465186 (- 50), Finite 5662687464654045 (- 48)) =
     (Finite 7625377371991373 (- 51), Finite 7510007731054672 (- 52), Finite 6831936618657217 (- 48))"
  by (simp only: lorenz_step_double_def py_10_def py_28_def py_8_div_3_def py_0_01_def
      funpow_numeral_apply funpow_0_apply explicit_euler_step_def double_eval
      cong: if_weak_cong let_weak_cong)

lemma trajectory_P_last:
  "(lorenz_step_double ^^ 2000)
     (Finite 5629499534213120 (- 49), Finite 5629499534213120 (- 49), Finite 5629499534213120 (- 49)) =
     (Finite 7879761225091429 (- 50), Finite 5549176058373353 (- 49), Finite 5681090214007120 (- 48))"
proof -
  note c = trajectory_P_0050
  note c = funpow_chain [OF c trajectory_P_0100]
  note c = funpow_chain [OF c trajectory_P_0150]
  note c = funpow_chain [OF c trajectory_P_0200]
  note c = funpow_chain [OF c trajectory_P_0250]
  note c = funpow_chain [OF c trajectory_P_0300]
  note c = funpow_chain [OF c trajectory_P_0350]
  note c = funpow_chain [OF c trajectory_P_0400]
  note c = funpow_chain [OF c trajectory_P_0450]
  note c = funpow_chain [OF c trajectory_P_0500]
  note c = funpow_chain [OF c trajectory_P_0550]
  note c = funpow_chain [OF c trajectory_P_0600]
  note c = funpow_chain [OF c trajectory_P_0650]
  note c = funpow_chain [OF c trajectory_P_0700]
  note c = funpow_chain [OF c trajectory_P_0750]
  note c = funpow_chain [OF c trajectory_P_0800]
  note c = funpow_chain [OF c trajectory_P_0850]
  note c = funpow_chain [OF c trajectory_P_0900]
  note c = funpow_chain [OF c trajectory_P_0950]
  note c = funpow_chain [OF c trajectory_P_1000]
  note c = funpow_chain [OF c trajectory_P_1050]
  note c = funpow_chain [OF c trajectory_P_1100]
  note c = funpow_chain [OF c trajectory_P_1150]
  note c = funpow_chain [OF c trajectory_P_1200]
  note c = funpow_chain [OF c trajectory_P_1250]
  note c = funpow_chain [OF c trajectory_P_1300]
  note c = funpow_chain [OF c trajectory_P_1350]
  note c = funpow_chain [OF c trajectory_P_1400]
  note c = funpow_chain [OF c trajectory_P_1450]
  note c = funpow_chain [OF c trajectory_P_1500]
  note c = funpow_chain [OF c trajectory_P_1550]
  note c = funpow_chain [OF c trajectory_P_1600]
  note c = funpow_chain [OF c trajectory_P_1650]
  note c = funpow_chain [OF c trajectory_P_1700]
  note c = funpow_chain [OF c trajectory_P_1750]
  note c = funpow_chain [OF c trajectory_P_1800]
  note c = funpow_chain [OF c trajectory_P_1850]
  note c = funpow_chain [OF c trajectory_P_1900]
  note c = funpow_chain [OF c trajectory_P_1950]
  note c = funpow_chain [OF c trajectory_P_2000]
  from c show ?thesis by simp
qed

lemma trajectory_Q_last:
  "(lorenz_step_double ^^ 2000)
     (Finite 5635129033747333 (- 49), Finite 5629499534213120 (- 49), Finite 5629499534213120 (- 49)) =
     (Finite 7625377371991373 (- 51), Finite 7510007731054672 (- 52), Finite 6831936618657217 (- 48))"
proof -
  note c = trajectory_Q_0050
  note c = funpow_chain [OF c trajectory_Q_0100]
  note c = funpow_chain [OF c trajectory_Q_0150]
  note c = funpow_chain [OF c trajectory_Q_0200]
  note c = funpow_chain [OF c trajectory_Q_0250]
  note c = funpow_chain [OF c trajectory_Q_0300]
  note c = funpow_chain [OF c trajectory_Q_0350]
  note c = funpow_chain [OF c trajectory_Q_0400]
  note c = funpow_chain [OF c trajectory_Q_0450]
  note c = funpow_chain [OF c trajectory_Q_0500]
  note c = funpow_chain [OF c trajectory_Q_0550]
  note c = funpow_chain [OF c trajectory_Q_0600]
  note c = funpow_chain [OF c trajectory_Q_0650]
  note c = funpow_chain [OF c trajectory_Q_0700]
  note c = funpow_chain [OF c trajectory_Q_0750]
  note c = funpow_chain [OF c trajectory_Q_0800]
  note c = funpow_chain [OF c trajectory_Q_0850]
  note c = funpow_chain [OF c trajectory_Q_0900]
  note c = funpow_chain [OF c trajectory_Q_0950]
  note c = funpow_chain [OF c trajectory_Q_1000]
  note c = funpow_chain [OF c trajectory_Q_1050]
  note c = funpow_chain [OF c trajectory_Q_1100]
  note c = funpow_chain [OF c trajectory_Q_1150]
  note c = funpow_chain [OF c trajectory_Q_1200]
  note c = funpow_chain [OF c trajectory_Q_1250]
  note c = funpow_chain [OF c trajectory_Q_1300]
  note c = funpow_chain [OF c trajectory_Q_1350]
  note c = funpow_chain [OF c trajectory_Q_1400]
  note c = funpow_chain [OF c trajectory_Q_1450]
  note c = funpow_chain [OF c trajectory_Q_1500]
  note c = funpow_chain [OF c trajectory_Q_1550]
  note c = funpow_chain [OF c trajectory_Q_1600]
  note c = funpow_chain [OF c trajectory_Q_1650]
  note c = funpow_chain [OF c trajectory_Q_1700]
  note c = funpow_chain [OF c trajectory_Q_1750]
  note c = funpow_chain [OF c trajectory_Q_1800]
  note c = funpow_chain [OF c trajectory_Q_1850]
  note c = funpow_chain [OF c trajectory_Q_1900]
  note c = funpow_chain [OF c trajectory_Q_1950]
  note c = funpow_chain [OF c trajectory_Q_2000]
  from c show ?thesis by simp
qed

lemma sqrt_factor_10: "0 \<le> b \<Longrightarrow> 100 * b < a \<Longrightarrow> 10 * sqrt b < sqrt a"
proof -
  assume b: "0 \<le> b" and ab: "100 * b < a"
  have "10 * sqrt b = sqrt (100 * b)"
    by (simp add: real_sqrt_mult)
  also have "\<dots> < sqrt a" using ab by simp
  finally show ?thesis .
qed

text \<open>
  Claim C6. With the default parameters (\<open>sigma = 10\<close>, \<open>rho = 28\<close>, \<open>beta = 8/3\<close>,
  \<open>dt = 0.01\<close>) and \<open>num_points = 2000\<close>, in double-precision arithmetic, the trajectories
  that \<^verbatim>\<open>get_lorenz_points\<close> returns from \<open>(10, 10, 10)\<close> and from \<open>(10.01, 10, 10)\<close> have
  2000 points each; their final points are, to the last bit, the doubles printed as
  \<^verbatim>\<open>(6.998633872516028, 9.85731684432763, 20.18328691380276)\<close> and
  \<^verbatim>\<open>(3.386347811936196, 1.6675566996259654, 24.271914677801536)\<close>; and the Euclidean
  distance between the final points is more than 10 times the Euclidean distance between
  the first points.
\<close>

theorem lorenz_sensitivity_double:
  "(let P = LorenzSystem_get_lorenz_points (py_10, py_10, py_10) py_10 py_28 py_8_div_3 py_0_01 2000;
        Q = LorenzSystem_get_lorenz_points (py_10_01, py_10, py_10) py_10 py_28 py_8_div_3 py_0_01 2000
    in length P = 2000 \<and> length Q = 2000 \<and>
       last P = (Finite 7879761225091429 (- 50),
          Finite 5549176058373353 (- 49),
          Finite 5681090214007120 (- 48)) \<and>
       last Q = (Finite 7625377371991373 (- 51),
          Finite 7510007731054672 (- 52),
          Finite 6831936618657217 (- 48)) \<and>
       10 * euclidean_distance (hd P) (hd Q) < euclidean_distance (last P) (last Q))"
proof -
  let ?P = "iterates lorenz_step_double 2000 (Finite 5629499534213120 (- 49),
          Finite 5629499534213120 (- 49),
          Finite 5629499534213120 (- 49))"
  let ?Q = "iterates lorenz_step_double 2000 (Finite 5635129033747333 (- 49),
          Finite 5629499534213120 (- 49),
          Finite 5629499534213120 (- 49))"
  have P: "LorenzSystem_get_lorenz_points (py_10, py_10, py_10) py_10 py_28 py_8_div_3 py_0_01 2000 = ?P"
    by (simp add: LorenzSystem_points_iterates lorenz_step_double_def py_10_def)
  have Q: "LorenzSystem_get_lorenz_points (py_10_01, py_10, py_10) py_10 py_28 py_8_div_3 py_0_01 2000 = ?Q"
    by (simp add: LorenzSystem_points_iterates lorenz_step_double_def py_10_def py_10_01_def)
  have len: "length ?P = 2000" "length ?Q = 2000"
    by (simp_all only: length_iterates)
  have lp: "last ?P = (Finite 7879761225091429 (- 50),
          Finite 5549176058373353 (- 49),
          Finite 5681090214007120 (- 48))"
    by (simp add: last_iterates trajectory_P_last)
  have lq: "last ?Q = (Finite 7625377371991373 (- 51),
          Finite 7510007731054672 (- 52),
          Finite 6831936618657217 (- 48))"
    by (simp add: last_iterates trajectory_Q_last)
  have hp: "hd ?P = (Finite 5629499534213120 (- 49),
          Finite 6586514455029350 (- 49),
          Finite 6042329500055416 (- 49))"
    by (simp add: hd_iterates trajectory_P_first)
  have hq: "hd ?Q = (Finite 5634566083793912 (- 49),
          Finite 6587527764945509 (- 49),
          Finite 6042892450008837 (- 49))"
    by (simp add: hd_iterates trajectory_Q_first)
  have "10 * euclidean_distance (Finite 5629499534213120 (- 49),
          Finite 6586514455029350 (- 49),
          Finite 6042329500055416 (- 49)) (Finite 5634566083793912 (- 49),
          Finite 6587527764945509 (- 49),
          Finite 6042892450008837 (- 49)) < euclidean_distance (Finite 7879761225091429 (- 50),
          Finite 5549176058373353 (- 49),
          Finite 5681090214007120 (- 48)) (Finite 7625377371991373 (- 51),
          Finite 7510007731054672 (- 52),
          Finite 6831936618657217 (- 48))"
    unfolding euclidean_distance_def prod.case
    by (rule sqrt_factor_10) (simp_all add: real_of_double_def power2_eq_square)
  then show ?thesis
    unfolding Let_def P Q lp lq hp hq using len by simp
qed

end
